theory Spec2Isabelle
  imports Complex_Main "HOL-Library.Multiset"
begin

section \<open>Strings and messages\<close>

text \<open>
  A Python string is a sequence of code points. It is modelled as a HOL \<open>string\<close> in which
  the character numbered \<open>n\<close> stands for the code point \<open>n\<close>, so the model covers the
  strings whose code points lie below 256 (ASCII and the accented Latin letters of the
  application's Portuguese texts).

  The validators return a pair of a flag and a user-visible text. The texts are kept as the
  constructors of \<open>mensagem\<close>:
  \<^item> \<open>SemMensagem\<close>: the empty text of a success;
  \<^item> \<open>NomeCurto\<close>: "Nome deve ter pelo menos 3 caracteres";
  \<^item> \<open>NomeIncompleto\<close>: "Digite o nome completo (nome e sobrenome)";
  \<^item> \<open>NomeComNumeros\<close>: "Nome nao pode conter numeros" (accented in the source);
  \<^item> \<open>SelecionePeloMenosUm\<close>: "Selecione pelo menos um procedimento";
  \<^item> \<open>Faltantes ps\<close>: "Procedimentos obrigatorios faltantes: " followed by the names
    \<open>ps\<close> joined with ", ".
\<close>

datatype mensagem =
    SemMensagem
  | NomeCurto
  | NomeIncompleto
  | NomeComNumeros
  | SelecionePeloMenosUm
  | Faltantes "string list"

section \<open>Library functions on strings\<close>

text \<open>
  \<open>str.strip()\<close> and \<open>str.split()\<close> remove and split at the white space of
  \<open>str.isspace\<close>: below 256 these are the code points 9 to 13, 28 to 32, 133 and 160.
  \<open>str.isdigit\<close> holds of the ASCII digits and of the superscripts 178, 179 and 185.
  The regular expression class \<open>[^0-9]\<close> is the complement of the ASCII digits alone.
\<close>

definition py_isspace :: "char \<Rightarrow> bool" where
  "py_isspace c =
     (let n = (of_char c :: nat) in
      (9 \<le> n \<and> n \<le> 13) \<or> (28 \<le> n \<and> n \<le> 32) \<or> n = 133 \<or> n = 160)"

definition py_isdigit :: "char \<Rightarrow> bool" where
  "py_isdigit c =
     (let n = (of_char c :: nat) in (48 \<le> n \<and> n \<le> 57) \<or> n = 178 \<or> n = 179 \<or> n = 185)"

definition digito_ascii :: "char \<Rightarrow> bool" where
  "digito_ascii c = (let n = (of_char c :: nat) in 48 \<le> n \<and> n \<le> 57)"

text \<open>\<open>int(c)\<close> on a one-character string holding an ASCII digit.\<close>

definition py_int_char :: "char \<Rightarrow> int" where
  "py_int_char c = int (of_char c) - 48"

definition py_strip :: "string \<Rightarrow> string" where
  "py_strip s = rev (dropWhile py_isspace (rev (dropWhile py_isspace s)))"

text \<open>\<open>s.split()\<close>: the maximal runs of characters that are not white space.\<close>

function py_split :: "string \<Rightarrow> string list" where
  "py_split [] = []"
| "py_split (c # cs) =
     (if py_isspace c then py_split cs
      else takeWhile (\<lambda>x. \<not> py_isspace x) (c # cs)
             # py_split (dropWhile (\<lambda>x. \<not> py_isspace x) cs))"
  by pat_completeness auto
termination
  by (relation "measure length") (auto simp: length_dropWhile_le less_Suc_eq_le)

text \<open>\<open>re.sub(r'[^0-9]', '', cpf)\<close>: every character that is not an ASCII digit is deleted.\<close>

definition re_sub_nao_digitos :: "string \<Rightarrow> string" where
  "re_sub_nao_digitos cpf = filter digito_ascii cpf"

text \<open>The slice \<open>s[a:b]\<close> for \<open>0 \<le> a \<le> b\<close>; \<open>s[:b]\<close> is \<open>take b s\<close> and \<open>s[a:]\<close> is \<open>drop a s\<close>.\<close>

definition py_slice :: "nat \<Rightarrow> nat \<Rightarrow> 'a list \<Rightarrow> 'a list" where
  "py_slice a b s = take (b - a) (drop a s)"

text \<open>\<open>xs.index(x)\<close> where \<open>x\<close> occurs in \<open>xs\<close>: the position of its first occurrence.\<close>

definition py_index :: "'a list \<Rightarrow> 'a \<Rightarrow> nat" where
  "py_index xs x = length (takeWhile (\<lambda>y. y \<noteq> x) xs)"

text \<open>\<open>int(x)\<close> on a number: truncation towards zero.\<close>

definition py_int :: "rat \<Rightarrow> int" where
  "py_int x = (if 0 \<le> x then \<lfloor>x\<rfloor> else \<lceil>x\<rceil>)"

section \<open>ValidadorAvancado\<close>

definition validar_nome_completo :: "string \<Rightarrow> bool \<times> mensagem" where
  "validar_nome_completo nome =
     (if nome = [] \<or> length (py_strip nome) < 3 then (False, NomeCurto)
      else
        let palavras = py_split (py_strip nome) in
        if length palavras < 2 then (False, NomeIncompleto)
        else if list_ex py_isdigit nome then (False, NomeComNumeros)
        else (True, SemMensagem))"

definition validar_procedimentos_minimos :: "string list \<Rightarrow> string list \<Rightarrow> bool \<times> mensagem" where
  "validar_procedimentos_minimos procedimentos obrigatorios =
     (if procedimentos = [] then (False, SelecionePeloMenosUm)
      else
        let faltantes = filter (\<lambda>proc. proc \<notin> set procedimentos) obrigatorios in
        if faltantes \<noteq> [] then (False, Faltantes faltantes)
        else (True, SemMensagem))"

section \<open>GerenciadorHistorico.adicionar_checklist\<close>

text \<open>
  The store is the in-memory list \<open>historico\<close>; a record has the ten keys of the
  dictionary built by the source, here the fields \<open>reg_id\<close> (key \<open>id\<close>), \<open>reg_nome\<close>
  (key \<open>nome\<close>) and so on. The two readings of the clock (\<open>isoformat\<close> and
  \<open>strftime\<close>) are parameters. Writing the file does not change the list and its
  result is ignored by the source.
\<close>

record registro =
  reg_id :: int
  reg_timestamp :: string
  reg_data_formatada :: string
  reg_nome :: string
  reg_cpf :: string
  reg_tipo_exame :: string
  reg_procedimentos :: "string list"
  reg_arquivo_pdf :: string
  reg_editado :: bool
  reg_historico_edicoes :: "string list"

definition adicionar_checklist ::
  "string \<Rightarrow> string \<Rightarrow> string \<Rightarrow> string \<Rightarrow> string \<Rightarrow> string list \<Rightarrow> string
     \<Rightarrow> registro list \<Rightarrow> int \<times> registro list" where
  "adicionar_checklist agora_iso agora_fmt nome cpf tipo_exame procedimentos arquivo_pdf historico =
     (let novo_registro =
        \<lparr> reg_id = int (length historico) + 1,
          reg_timestamp = agora_iso,
          reg_data_formatada = agora_fmt,
          reg_nome = py_strip nome,
          reg_cpf = cpf,
          reg_tipo_exame = tipo_exame,
          reg_procedimentos = procedimentos,
          reg_arquivo_pdf = arquivo_pdf,
          reg_editado = False,
          reg_historico_edicoes = [] \<rparr>
      in (reg_id novo_registro, historico @ [novo_registro]))"

text \<open>One submission, as the caller passes it: the clock readings and the five arguments.\<close>

type_synonym entrada = "string \<times> string \<times> string \<times> string \<times> string \<times> string list \<times> string"

fun adicionar_entrada :: "entrada \<Rightarrow> registro list \<Rightarrow> int \<times> registro list" where
  "adicionar_entrada (agora_iso, agora_fmt, n, c, t, ps, a) historico =
     adicionar_checklist agora_iso agora_fmt n c t ps a historico"

text \<open>Appending a sequence of submissions, one call after the other.\<close>

fun adicionar_varios :: "entrada list \<Rightarrow> registro list \<Rightarrow> registro list" where
  "adicionar_varios [] historico = historico"
| "adicionar_varios (e # es) historico = adicionar_varios es (snd (adicionar_entrada e historico))"

text \<open>The ids of a store are its positions counted from 1, in insertion order.\<close>

definition ids_em_ordem :: "registro list \<Rightarrow> bool" where
  "ids_em_ordem historico = (map reg_id historico = map (\<lambda>i. int i + 1) [0..<length historico])"

section \<open>SistemaClinico: national id\<close>

text \<open>
  In \<open>validar_cpf\<close> the test \<open>len(cpf) != 11 or cpf == cpf[0] * 11\<close> reads \<open>cpf[0]\<close>
  only when the length is 11, so the two disjuncts are two branches here.
\<close>

definition validar_cpf :: "string \<Rightarrow> bool" where
  "validar_cpf cpf0 =
     (let cpf = re_sub_nao_digitos cpf0 in
      if length cpf \<noteq> 11 then False
      else if cpf = replicate 11 (cpf ! 0) then False
      else
        let soma = sum_list (map (\<lambda>i. py_int_char (cpf ! i) * (10 - int i)) [0..<9]);
            resto = 11 - soma mod 11;
            resto = (if resto = 10 \<or> resto = 11 then 0 else resto)
        in
        if resto \<noteq> py_int_char (cpf ! 9) then False
        else
          let soma = sum_list (map (\<lambda>i. py_int_char (cpf ! i) * (11 - int i)) [0..<10]);
              resto = 11 - soma mod 11;
              resto = (if resto = 10 \<or> resto = 11 then 0 else resto)
          in
          if resto \<noteq> py_int_char (cpf ! 10) then False
          else True)"

definition formatar_cpf :: "string \<Rightarrow> string" where
  "formatar_cpf cpf0 =
     (let cpf = re_sub_nao_digitos cpf0 in
      if length cpf \<le> 3 then cpf
      else if length cpf \<le> 6 then take 3 cpf @ ''.'' @ drop 3 cpf
      else if length cpf \<le> 9 then take 3 cpf @ ''.'' @ py_slice 3 6 cpf @ ''.'' @ drop 6 cpf
      else if length cpf \<le> 11 then
        take 3 cpf @ ''.'' @ py_slice 3 6 cpf @ ''.'' @ py_slice 6 9 cpf @ ''-'' @ drop 9 cpf
      else
        take 3 cpf @ ''.'' @ py_slice 3 6 cpf @ ''.'' @ py_slice 6 9 cpf @ ''-'' @ py_slice 9 11 cpf)"

text \<open>
  The check as the specification words it: the digits that remain after stripping are
  eleven, not all the same, and the last two are the check digits of the first nine and of
  the first ten. A check digit is 11 minus the weighted sum modulo 11, with 10 and 11 read
  as 0; the weights run from 10 (or 11) down to 2.
\<close>

definition digito_verificador :: "int list \<Rightarrow> int list \<Rightarrow> int" where
  "digito_verificador pesos digitos =
     (let r = 11 - sum_list (map2 (*) pesos digitos) mod 11 in if r = 10 \<or> r = 11 then 0 else r)"

definition cpf_valido_spec :: "string \<Rightarrow> bool" where
  "cpf_valido_spec s =
     (let ds = map py_int_char (filter digito_ascii s) in
      length ds = 11
      \<and> \<not> list_all (\<lambda>d. d = hd ds) ds
      \<and> digito_verificador [10, 9, 8, 7, 6, 5, 4, 3, 2] (take 9 ds) = ds ! 9
      \<and> digito_verificador [11, 10, 9, 8, 7, 6, 5, 4, 3, 2] (take 10 ds) = ds ! 10)"

section \<open>GerenciadorInterface: ordering the selection\<close>

text \<open>
  The selection is the list \<open>procedimentos_selecionados\<close>, changed in place by the source
  and returned here. \<open>list.remove\<close> deletes the first occurrence; both membership tests are
  made before anything is removed.
\<close>

definition ordenar_procedimentos :: "string list \<Rightarrow> string list" where
  "ordenar_procedimentos procedimentos_selecionados =
     (if procedimentos_selecionados = [] then procedimentos_selecionados
      else
        let triagem = (''Triagem'' \<in> set procedimentos_selecionados);
            faturamento = (''Faturamento'' \<in> set procedimentos_selecionados);
            sel = (if triagem then remove1 ''Triagem'' procedimentos_selecionados
                   else procedimentos_selecionados);
            sel = (if faturamento then remove1 ''Faturamento'' sel else sel);
            sel = (if triagem then ''Triagem'' # sel else sel);
            sel = (if faturamento then sel @ [''Faturamento''] else sel)
        in sel)"

text \<open>The procedures other than the two designated ones, in the order of the list.\<close>

definition outros_procedimentos :: "string list \<Rightarrow> string list" where
  "outros_procedimentos ps = filter (\<lambda>p. p \<noteq> ''Triagem'' \<and> p \<noteq> ''Faturamento'') ps"

section \<open>SistemaClinico: catalog and mandatory list\<close>

text \<open>
  The catalog \<open>procedimentos_db\<close> is a dictionary from a procedure name to its attribute
  dictionary (\<open>{"requer_laudo": flag}\<close>); the mandatory list is a list of names. The
  operations change both in place; here they take the state and return it with their
  result. Saving the two files changes neither.
\<close>

type_synonym dados = "string \<rightharpoonup> bool"

record sistema =
  procedimentos_db :: "string \<rightharpoonup> dados"
  procedimentos_obrigatorios :: "string list"

definition sem_laudo :: dados where
  "sem_laudo = [''requer_laudo'' \<mapsto> False]"

text \<open>Three names of the source have an accented letter: i acute is the code point 237, o acute 243.\<close>

definition exame_clinico :: string where
  "exame_clinico = ''Exame Cl'' @ [char_of (237 :: nat)] @ ''nico''"

definition raio_x_torax :: string where
  "raio_x_torax = ''Raio-X T'' @ [char_of (243 :: nat)] @ ''rax''"

definition exame_dermatologico :: string where
  "exame_dermatologico = ''Exame Dermatol'' @ [char_of (243 :: nat)] @ ''gico''"

definition obrigatorios_padrao :: "string list" where
  "obrigatorios_padrao = [exame_clinico, ''Faturamento'', ''Triagem'']"

definition procedimentos_iniciais :: "string list" where
  "procedimentos_iniciais =
     [exame_clinico, ''Faturamento'', ''Triagem'', ''Audiometria'', ''Espirometria'',
      ''Eletrocardiograma'', ''Hemograma Completo'', ''Glicemia'',
      ''Exame de Urina'', raio_x_torax, ''Acuidade Visual'', exame_dermatologico]"

text \<open>
  \<open>__init__\<close> followed by \<open>carregar_dados\<close> when neither file exists: the twelve initial
  procedures without report, and the three default mandatory names.
\<close>

definition carregar_dados_sem_arquivos :: sistema where
  "carregar_dados_sem_arquivos =
     \<lparr> procedimentos_db = fold (\<lambda>proc db. db(proc \<mapsto> sem_laudo)) procedimentos_iniciais Map.empty,
       procedimentos_obrigatorios = [exame_clinico, ''Faturamento'', ''Triagem''] \<rparr>"

definition garantir_procedimentos_obrigatorios_completos :: "sistema \<Rightarrow> sistema" where
  "garantir_procedimentos_obrigatorios_completos s =
     (let obrigatorios =
            fold (\<lambda>obrig os. if obrig \<notin> set os then os @ [obrig] else os)
              obrigatorios_padrao (procedimentos_obrigatorios s);
          db =
            fold (\<lambda>obrig d. if d obrig = None then d(obrig \<mapsto> sem_laudo) else d)
              obrigatorios_padrao (procedimentos_db s)
      in s\<lparr>procedimentos_db := db, procedimentos_obrigatorios := obrigatorios\<rparr>)"

definition procedimento_requer_laudo :: "sistema \<Rightarrow> string \<Rightarrow> bool" where
  "procedimento_requer_laudo s procedimento =
     (case procedimentos_db s procedimento of
        None \<Rightarrow> False
      | Some d \<Rightarrow> (case d ''requer_laudo'' of None \<Rightarrow> False | Some b \<Rightarrow> b))"

definition definir_requer_laudo :: "string \<Rightarrow> bool \<Rightarrow> sistema \<Rightarrow> bool \<times> sistema" where
  "definir_requer_laudo procedimento requer s =
     (case procedimentos_db s procedimento of
        None \<Rightarrow> (False, s)
      | Some d \<Rightarrow>
          (True, s\<lparr>procedimentos_db :=
                     (procedimentos_db s)(procedimento \<mapsto> d(''requer_laudo'' \<mapsto> requer))\<rparr>))"

definition adicionar_procedimento :: "string \<Rightarrow> sistema \<Rightarrow> bool \<times> sistema" where
  "adicionar_procedimento procedimento s =
     (if procedimento \<noteq> [] \<and> procedimentos_db s procedimento = None
      then (True, s\<lparr>procedimentos_db := (procedimentos_db s)(procedimento \<mapsto> sem_laudo)\<rparr>)
      else (False, s))"

definition remover_procedimento_db :: "string \<Rightarrow> sistema \<Rightarrow> bool \<times> sistema" where
  "remover_procedimento_db procedimento s =
     (if procedimentos_db s procedimento \<noteq> None
      then (True, s\<lparr>procedimentos_db := (procedimentos_db s)(procedimento := None)\<rparr>)
      else (False, s))"

definition alternar_obrigatorio :: "string \<Rightarrow> sistema \<Rightarrow> bool \<times> sistema" where
  "alternar_obrigatorio procedimento s =
     (if procedimento \<in> set (procedimentos_obrigatorios s)
      then (True, s\<lparr>procedimentos_obrigatorios := remove1 procedimento (procedimentos_obrigatorios s)\<rparr>)
      else (True, s\<lparr>procedimentos_obrigatorios := procedimentos_obrigatorios s @ [procedimento]\<rparr>))"

definition editar_procedimento_db :: "string \<Rightarrow> string \<Rightarrow> sistema \<Rightarrow> bool \<times> sistema" where
  "editar_procedimento_db procedimento_antigo procedimento_novo s =
     (case procedimentos_db s procedimento_antigo of
        None \<Rightarrow> (False, s)
      | Some dados_antigos \<Rightarrow>
          if procedimento_novo = [] then (False, s)
          else
            let db = (procedimentos_db s)(procedimento_antigo := None);
                db = db(procedimento_novo \<mapsto> dados_antigos);
                obrigatorios =
                  (if procedimento_antigo \<in> set (procedimentos_obrigatorios s)
                   then
                     let obrig_index = py_index (procedimentos_obrigatorios s) procedimento_antigo
                     in (procedimentos_obrigatorios s)[obrig_index := procedimento_novo]
                   else procedimentos_obrigatorios s)
            in (True, s\<lparr>procedimentos_db := db, procedimentos_obrigatorios := obrigatorios\<rparr>))"

text \<open>Every mandatory name is a key of the catalog.\<close>

definition obrigatorios_no_catalogo :: "sistema \<Rightarrow> bool" where
  "obrigatorios_no_catalogo s = (set (procedimentos_obrigatorios s) \<subseteq> dom (procedimentos_db s))"

section \<open>SistemaClinico: the layout of the checklist body\<close>

text \<open>
  Of the rendering, the model keeps what decides the layout of the body: the space needed at
  the nominal sizes, the eight sizes computed from it, and the position \<open>y_position\<close> after
  the loop that draws the rows. The page height comes from the PDF library's \<open>A4\<close> constant
  and is a parameter; \<open>A4_height\<close> is its value, 297 mm at \<open>72 / 2.54 * 0.1\<close> points per
  millimetre. The source computes with binary floating point numbers, the model with exact
  rationals. When nothing is needed and the available space is negative, the division raises
  \<open>ZeroDivisionError\<close>.
\<close>

datatype erro = ZeroDivisionError

record tamanhos =
  fonte_numero :: int
  fonte_procedimento :: int
  fonte_subitem :: int
  espaco_procedimento :: int
  espaco_subitem :: int
  espaco_extra :: int
  tamanho_checkbox :: int
  tamanho_subcheckbox :: int

definition A4_height :: rat where
  "A4_height = 297 * (72 / (254 / 100) * (1 / 10))"

definition calcular_espaco_necessario :: "sistema \<Rightarrow> string list \<Rightarrow> int" where
  "calcular_espaco_necessario s procedimentos_selecionados =
     fold (\<lambda>proc espaco_total.
             let espaco_total = espaco_total + 25;
                 espaco_total = (if procedimento_requer_laudo s proc then espaco_total + 20
                                 else espaco_total)
             in espaco_total + 10)
       procedimentos_selecionados 0"

definition espaco_disponivel :: "rat \<Rightarrow> rat" where
  "espaco_disponivel height = (let y_inicio = height - 270; y_final = 80 in y_inicio - y_final)"

definition calcular_tamanhos :: "rat \<Rightarrow> int \<Rightarrow> erro + tamanhos" where
  "calcular_tamanhos espaco_disp espaco_necessario =
     (if of_int espaco_necessario > espaco_disp then
        if espaco_necessario = 0 then Inl ZeroDivisionError
        else
          let fator_escala = espaco_disp / of_int espaco_necessario in
          Inr \<lparr> fonte_numero = max 10 (py_int (14 * fator_escala)),
                fonte_procedimento = max 9 (py_int (12 * fator_escala)),
                fonte_subitem = max 8 (py_int (10 * fator_escala)),
                espaco_procedimento = max 18 (py_int (25 * fator_escala)),
                espaco_subitem = max 15 (py_int (20 * fator_escala)),
                espaco_extra = max 5 (py_int (10 * fator_escala)),
                tamanho_checkbox = max 12 (py_int (15 * fator_escala)),
                tamanho_subcheckbox = max 10 (py_int (12 * fator_escala)) \<rparr>
      else
        Inr \<lparr> fonte_numero = 14, fonte_procedimento = 12, fonte_subitem = 10,
              espaco_procedimento = 25, espaco_subitem = 20, espaco_extra = 10,
              tamanho_checkbox = 15, tamanho_subcheckbox = 12 \<rparr>)"

text \<open>The loop that draws the rows: each row moves \<open>y_position\<close> down; the result is its last value.\<close>

fun desenhar_procedimentos :: "sistema \<Rightarrow> tamanhos \<Rightarrow> string list \<Rightarrow> rat \<Rightarrow> rat" where
  "desenhar_procedimentos s t [] y_position = y_position"
| "desenhar_procedimentos s t (procedimento # resto) y_position =
     (let y_position = y_position - of_int (espaco_procedimento t);
          y_position = (if procedimento_requer_laudo s procedimento
                        then y_position - of_int (espaco_subitem t) else y_position);
          y_position = y_position - of_int (espaco_extra t)
      in desenhar_procedimentos s t resto y_position)"

definition gerar_pdf_checklist :: "rat \<Rightarrow> sistema \<Rightarrow> string list \<Rightarrow> erro + (tamanhos \<times> rat)" where
  "gerar_pdf_checklist height s procedimentos_selecionados =
     (let y_position = height - 270;
          espaco_necessario = calcular_espaco_necessario s procedimentos_selecionados
      in case calcular_tamanhos (espaco_disponivel height) espaco_necessario of
           Inl e \<Rightarrow> Inl e
         | Inr t \<Rightarrow> Inr (t, desenhar_procedimentos s t procedimentos_selecionados y_position))"

text \<open>The height used by the rows: from the start of the body down to the last \<open>y_position\<close>.\<close>

definition altura_consumida :: "rat \<Rightarrow> rat \<Rightarrow> rat" where
  "altura_consumida height y_position = (height - 270) - y_position"

text \<open>The scale factor of the shrinking branch, and whether it leaves the three row spacings above their floors.\<close>

definition fator_escala_de :: "rat \<Rightarrow> sistema \<Rightarrow> string list \<Rightarrow> rat" where
  "fator_escala_de height s procedimentos_selecionados =
     espaco_disponivel height / of_int (calcular_espaco_necessario s procedimentos_selecionados)"

definition espacos_sem_piso :: "rat \<Rightarrow> bool" where
  "espacos_sem_piso fator_escala =
     (18 \<le> py_int (25 * fator_escala) \<and> 15 \<le> py_int (20 * fator_escala)
      \<and> 5 \<le> py_int (10 * fator_escala))"

section \<open>Example data\<close>

text \<open>
  A catalog of twenty procedures of which none requires a report, as a catalog file in the
  old list format gives it when loaded, with the default mandatory list; and the selection
  of all twenty, in the order the interface passes it to the rendering.
\<close>

definition exemplo_vinte_procedimentos :: "string list" where
  "exemplo_vinte_procedimentos =
     [''Triagem'', exame_clinico, ''Audiometria'', ''Espirometria'', ''Eletrocardiograma'',
      ''Hemograma Completo'', ''Glicemia'', ''Exame de Urina'', ''Acuidade Visual'',
      ''Eletroencefalograma'', ''Colesterol Total'', ''Triglicerideos'', ''Creatinina'',
      ''TGO'', ''TGP'', ''Gama GT'', ''Toxicologico'', ''Avaliacao Psicossocial'',
      ''Teste Ergometrico'', ''Faturamento'']"

definition exemplo_sistema :: sistema where
  "exemplo_sistema =
     \<lparr> procedimentos_db =
         fold (\<lambda>proc db. db(proc \<mapsto> sem_laudo)) exemplo_vinte_procedimentos Map.empty,
       procedimentos_obrigatorios = [exame_clinico, ''Faturamento'', ''Triagem''] \<rparr>"

text \<open>A selection of fifteen of them.\<close>

definition exemplo_quinze_procedimentos :: "string list" where
  "exemplo_quinze_procedimentos = take 14 exemplo_vinte_procedimentos @ [''Faturamento'']"

text \<open>A first start, after which "Audiometria" is set to require a report.\<close>

definition exemplo_audiometria_com_laudo :: sistema where
  "exemplo_audiometria_com_laudo =
     snd (definir_requer_laudo ''Audiometria'' True
            (garantir_procedimentos_obrigatorios_completos carregar_dados_sem_arquivos))"

section \<open>Validation of an empty selection\<close>

text \<open>
  Claim C10. The validator of mandatory procedures rejects an empty selection with the
  dedicated failure "Selecione pelo menos um procedimento", whatever the mandatory list is,
  the empty mandatory list included: an empty selection never validates.
\<close>

theorem validar_procedimentos_minimos_vazio:
  "validar_procedimentos_minimos [] obrigatorios = (False, SelecionePeloMenosUm)
   \<and> validar_procedimentos_minimos [] [] = (False, SelecionePeloMenosUm)
   \<and> \<not> fst (validar_procedimentos_minimos [] obrigatorios)"
  by (simp add: validar_procedimentos_minimos_def)

section \<open>Ids of the record store\<close>

lemma adicionar_checklist_snd:
  "snd (adicionar_checklist ai af n c t ps a h) =
     h @ [\<lparr> reg_id = int (length h) + 1, reg_timestamp = ai, reg_data_formatada = af, reg_nome = py_strip n,
            reg_cpf = c, reg_tipo_exame = t, reg_procedimentos = ps, reg_arquivo_pdf = a, reg_editado = False,
            reg_historico_edicoes = [] \<rparr>]"
  by (simp add: adicionar_checklist_def Let_def)

lemma ids_em_ordem_adicionar:
  assumes "ids_em_ordem h"
  shows "ids_em_ordem (snd (adicionar_entrada e h))"
proof -
  obtain ai af n c t ps a where e: "e = (ai, af, n, c, t, ps, a)"
    by (cases e) auto
  show ?thesis
    using assms by (simp add: e adicionar_checklist_snd ids_em_ordem_def)
qed

lemma length_adicionar_entrada: "length (snd (adicionar_entrada e h)) = Suc (length h)"
  by (cases e) (simp add: adicionar_checklist_snd)

lemma adicionar_varios_ids:
  "ids_em_ordem h \<Longrightarrow> ids_em_ordem (adicionar_varios es h)"
  by (induction es arbitrary: h) (simp_all add: ids_em_ordem_adicionar)

lemma length_adicionar_varios: "length (adicionar_varios es h) = length h + length es"
  by (induction es arbitrary: h) (simp_all add: length_adicionar_entrada)

text \<open>
  Claim C7. On a store of \<open>n\<close> records, \<open>adicionar_checklist\<close> gives the new record the
  id \<open>n + 1\<close>, appends it after the records already there and returns that id. Hence after
  \<open>k\<close> appends to the empty store the ids are \<open>1, 2, ..., k\<close> in order, and the record at
  position \<open>i\<close> (counted from 0) has the id \<open>i + 1\<close>.
\<close>

theorem adicionar_checklist_ids:
  "fst (adicionar_checklist ai af n c t ps a h) = int (length h) + 1
   \<and> butlast (snd (adicionar_checklist ai af n c t ps a h)) = h
   \<and> reg_id (last (snd (adicionar_checklist ai af n c t ps a h))) = int (length h) + 1
   \<and> length (adicionar_varios es []) = length es
   \<and> map reg_id (adicionar_varios es []) = map int [1..<Suc (length es)]
   \<and> (\<forall>i<length es. reg_id (adicionar_varios es [] ! i) = int i + 1)"
proof -
  have ord: "ids_em_ordem (adicionar_varios es [])"
    by (rule adicionar_varios_ids) (simp add: ids_em_ordem_def)
  have len: "length (adicionar_varios es []) = length es"
    by (simp add: length_adicionar_varios)
  have m: "map reg_id (adicionar_varios es []) = map (\<lambda>i. int i + 1) [0..<length es]"
    using ord len by (simp add: ids_em_ordem_def)
  have m': "map (\<lambda>i. int i + 1) [0..<length es] = map int [1..<Suc (length es)]"
    by (induction es) simp_all
  have pos: "\<forall>i<length es. reg_id (adicionar_varios es [] ! i) = int i + 1"
  proof (intro allI impI)
    fix i assume i: "i < length es"
    have "reg_id (adicionar_varios es [] ! i) = map reg_id (adicionar_varios es []) ! i"
      using i len by simp
    also have "\<dots> = int i + 1"
      using i by (simp add: m)
    finally show "reg_id (adicionar_varios es [] ! i) = int i + 1" .
  qed
  show ?thesis
    using len m m' pos by (simp add: adicionar_checklist_def Let_def)
qed

text \<open>Three appends to the empty store, as in the store's own test data: ids 1, 2, 3.\<close>

theorem adicionar_checklist_ids_witness:
  "map reg_id (adicionar_varios
      [(''2025-01-01T10:00:00'', ''01/01/2025 10:00'', ''Joao Silva'', ''123.456.789-09'',
          ''Admissional'', [''Triagem''], ''a.pdf''),
       (''2025-01-01T10:01:00'', ''01/01/2025 10:01'', ''Maria Santos'', ''987.654.321-00'',
          ''Periodico'', [''Triagem''], ''b.pdf''),
       (''2025-01-01T10:02:00'', ''01/01/2025 10:02'', ''Ana Lima'', ''111.444.777-35'',
          ''Demissional'', [''Triagem''], ''c.pdf'')] []) = [1, 2, 3]
   \<and> (2::nat) < length [1, 2, 3 :: int]
   \<and> reg_id (adicionar_varios
      [(''2025-01-01T10:00:00'', ''01/01/2025 10:00'', ''Joao Silva'', ''123.456.789-09'',
          ''Admissional'', [''Triagem''], ''a.pdf''),
       (''2025-01-01T10:01:00'', ''01/01/2025 10:01'', ''Maria Santos'', ''987.654.321-00'',
          ''Periodico'', [''Triagem''], ''b.pdf''),
       (''2025-01-01T10:02:00'', ''01/01/2025 10:02'', ''Ana Lima'', ''111.444.777-35'',
          ''Demissional'', [''Triagem''], ''c.pdf'')] [] ! 2) = 3"
  using adicionar_checklist_ids [of "''t''" "''d''" "''n''" "''c''" "''t''" "[]" "''a''" "[]"
      "[(''2025-01-01T10:00:00'', ''01/01/2025 10:00'', ''Joao Silva'', ''123.456.789-09'',
          ''Admissional'', [''Triagem''], ''a.pdf''),
       (''2025-01-01T10:01:00'', ''01/01/2025 10:01'', ''Maria Santos'', ''987.654.321-00'',
          ''Periodico'', [''Triagem''], ''b.pdf''),
       (''2025-01-01T10:02:00'', ''01/01/2025 10:02'', ''Ana Lima'', ''111.444.777-35'',
          ''Demissional'', [''Triagem''], ''c.pdf'')]"]
  by (simp add: upt_rec)

section \<open>The ordering rule\<close>

lemma filter_remove1_outro:
  "\<not> P x \<Longrightarrow> filter P (remove1 x xs) = filter P xs"
  by (induction xs) auto

lemma ordenar_procedimentos_eq:
  "ordenar_procedimentos sel =
     (if ''Triagem'' \<in> set sel then [''Triagem''] else [])
     @ remove1 ''Faturamento'' (remove1 ''Triagem'' sel)
     @ (if ''Faturamento'' \<in> set sel then [''Faturamento''] else [])"
  by (auto simp: ordenar_procedimentos_def Let_def remove1_idem)

lemma mset_recolocar:
  "x \<in> set xs \<Longrightarrow> add_mset x (mset (remove1 x xs)) = mset xs"
  by (induction xs) auto

lemma mset_ordenar_procedimentos: "mset (ordenar_procedimentos sel) = mset sel"
proof -
  let ?r = "remove1 ''Triagem'' sel"
  have f: "''Faturamento'' \<in> set ?r" if "''Faturamento'' \<in> set sel"
    using that by simp
  have a: "mset (remove1 ''Faturamento'' ?r @ [''Faturamento'']) = mset ?r"
    if "''Faturamento'' \<in> set sel"
    using mset_recolocar [OF f [OF that]] by simp
  have b: "mset (remove1 ''Faturamento'' ?r) = mset ?r" if "''Faturamento'' \<notin> set sel"
    using that by (simp add: remove1_idem)
  have c: "mset (remove1 ''Faturamento'' ?r
                  @ (if ''Faturamento'' \<in> set sel then [''Faturamento''] else [])) = mset ?r"
    using a b by (cases "''Faturamento'' \<in> set sel") simp_all
  have d: "mset ((if ''Triagem'' \<in> set sel then [''Triagem''] else []) @ ?r) = mset sel"
    using mset_recolocar [of "''Triagem''" sel]
    by (cases "''Triagem'' \<in> set sel") (simp_all add: remove1_idem)
  have "mset (ordenar_procedimentos sel)
          = mset (if ''Triagem'' \<in> set sel then [''Triagem''] else [])
            + mset (remove1 ''Faturamento'' ?r
                  @ (if ''Faturamento'' \<in> set sel then [''Faturamento''] else []))"
    unfolding ordenar_procedimentos_eq by (simp only: mset_append)
  also have "\<dots> = mset (if ''Triagem'' \<in> set sel then [''Triagem''] else []) + mset ?r"
    by (simp only: c)
  also have "\<dots> = mset sel"
    using d by (simp only: mset_append)
  finally show ?thesis .
qed

text \<open>
  Claim C4. For every selection, the ordering rule yields a permutation of the selection
  (the same names with the same multiplicities, hence the same length); when "Triagem" is
  selected it stands at position 0, when "Faturamento" is selected it stands at the last
  position, and the other procedures keep their relative order.
\<close>

theorem ordenar_procedimentos_regra:
  "mset (ordenar_procedimentos sel) = mset sel
   \<and> length (ordenar_procedimentos sel) = length sel
   \<and> (''Triagem'' \<in> set sel \<longrightarrow> ordenar_procedimentos sel ! 0 = ''Triagem'')
   \<and> (''Faturamento'' \<in> set sel \<longrightarrow>
        ordenar_procedimentos sel ! (length sel - 1) = ''Faturamento'')
   \<and> outros_procedimentos (ordenar_procedimentos sel) = outros_procedimentos sel"
proof -
  have m: "mset (ordenar_procedimentos sel) = mset sel"
    by (rule mset_ordenar_procedimentos)
  have len: "length (ordenar_procedimentos sel) = length sel"
    using m by (metis size_mset)
  have t: "''Triagem'' \<in> set sel \<Longrightarrow> ordenar_procedimentos sel ! 0 = ''Triagem''"
    by (simp add: ordenar_procedimentos_eq)
  have f: "ordenar_procedimentos sel ! (length sel - 1) = ''Faturamento''"
    if "''Faturamento'' \<in> set sel"
  proof -
    have "ordenar_procedimentos sel \<noteq> []"
      using that by (simp add: ordenar_procedimentos_eq)
    then have "last (ordenar_procedimentos sel) = ordenar_procedimentos sel ! (length sel - 1)"
      using len by (simp add: last_conv_nth)
    moreover have "last (ordenar_procedimentos sel) = ''Faturamento''"
      using that by (simp add: ordenar_procedimentos_eq)
    ultimately show ?thesis by simp
  qed
  have o: "outros_procedimentos (ordenar_procedimentos sel) = outros_procedimentos sel"
    by (simp add: ordenar_procedimentos_eq outros_procedimentos_def filter_remove1_outro)
  show ?thesis
    using m len t f o by blast
qed

text \<open>
  An unordered selection holding both designated names and three others.
\<close>

theorem ordenar_procedimentos_regra_witness:
  "''Triagem'' \<in> set [''Audiometria'', ''Faturamento'', ''Glicemia'', ''Triagem'', ''Espirometria'']
   \<and> ''Faturamento'' \<in> set [''Audiometria'', ''Faturamento'', ''Glicemia'', ''Triagem'', ''Espirometria'']
   \<and> ordenar_procedimentos [''Audiometria'', ''Faturamento'', ''Glicemia'', ''Triagem'', ''Espirometria'']
       = [''Triagem'', ''Audiometria'', ''Glicemia'', ''Espirometria'', ''Faturamento'']
   \<and> ordenar_procedimentos [''Audiometria'', ''Faturamento'', ''Glicemia'', ''Triagem'', ''Espirometria''] ! 0
       = ''Triagem''
   \<and> ordenar_procedimentos [''Audiometria'', ''Faturamento'', ''Glicemia'', ''Triagem'', ''Espirometria''] ! 4
       = ''Faturamento''"
  using ordenar_procedimentos_regra
    [of "[''Audiometria'', ''Faturamento'', ''Glicemia'', ''Triagem'', ''Espirometria'']"]
  by (simp add: ordenar_procedimentos_def)

section \<open>The national-id mask\<close>

lemma ponto_nao_digito: "\<not> digito_ascii CHR ''.''" "\<not> digito_ascii CHR ''-''"
  by (simp_all add: digito_ascii_def)

lemma filter_digitos_id:
  "set xs \<subseteq> set (filter digito_ascii s) \<Longrightarrow> filter digito_ascii xs = xs"
  by (rule filter_True) auto

lemma filter_digitos_take: "filter digito_ascii (take n (filter digito_ascii s)) = take n (filter digito_ascii s)"
  by (rule filter_digitos_id) (rule set_take_subset)

lemma filter_digitos_drop: "filter digito_ascii (drop n (filter digito_ascii s)) = drop n (filter digito_ascii s)"
  by (rule filter_digitos_id) (rule set_drop_subset)

lemma filter_digitos_take_drop:
  "filter digito_ascii (take m (drop n (filter digito_ascii s))) = take m (drop n (filter digito_ascii s))"
  by (rule filter_True) (auto dest!: in_set_takeD in_set_dropD)

lemma partes_11: "take 3 d @ take 3 (drop 3 d) @ take 3 (drop 6 d) @ take 2 (drop 9 d) = take 11 d"
proof -
  have "take 11 d = take (3 + (3 + (3 + 2))) d" by simp
  also have "\<dots> = take 3 d @ take 3 (drop 3 d) @ take 3 (drop 6 d) @ take 2 (drop 9 d)"
    by (simp only: take_add drop_drop) simp
  finally show ?thesis by simp
qed

lemma partes_resto_9: "take 3 d @ take 3 (drop 3 d) @ take 3 (drop 6 d) @ drop 9 d = d"
proof -
  have "take 3 (drop 6 d) @ drop 9 d = drop 6 d"
    using append_take_drop_id [of 3 "drop 6 d"] by simp
  moreover have "take 3 (drop 3 d) @ drop 6 d = drop 3 d"
    using append_take_drop_id [of 3 "drop 3 d"] by simp
  ultimately show ?thesis by simp
qed

lemma partes_resto_6: "take 3 d @ take 3 (drop 3 d) @ drop 6 d = d"
proof -
  have "take 3 (drop 3 d) @ drop 6 d = drop 3 d"
    using append_take_drop_id [of 3 "drop 3 d"] by simp
  then show ?thesis by simp
qed

text \<open>The mask is a function of the digits alone.\<close>

lemma formatar_cpf_digitos:
  "re_sub_nao_digitos a = re_sub_nao_digitos b \<Longrightarrow> formatar_cpf a = formatar_cpf b"
  by (simp add: formatar_cpf_def)

lemma re_sub_nao_digitos_take:
  "re_sub_nao_digitos (take n (re_sub_nao_digitos s)) = take n (re_sub_nao_digitos s)"
  by (simp add: re_sub_nao_digitos_def filter_digitos_take)

text \<open>Stripping the mask gives back the first eleven digits.\<close>

lemma re_sub_formatar_cpf:
  "re_sub_nao_digitos (formatar_cpf s) = take 11 (re_sub_nao_digitos s)"
proof -
  let ?d = "filter digito_ascii s"
  consider "length ?d \<le> 3" | "3 < length ?d" "length ?d \<le> 6" | "6 < length ?d" "length ?d \<le> 9"
    | "9 < length ?d" "length ?d \<le> 11" | "11 < length ?d"
    by linarith
  then show ?thesis
  proof cases
    case 1
    then show ?thesis
      by (simp add: formatar_cpf_def Let_def re_sub_nao_digitos_def)
  next
    case 2
    then show ?thesis
      by (simp add: formatar_cpf_def Let_def re_sub_nao_digitos_def ponto_nao_digito
          filter_digitos_take filter_digitos_drop)
  next
    case 3
    then show ?thesis
      by (simp add: formatar_cpf_def Let_def re_sub_nao_digitos_def py_slice_def ponto_nao_digito
          filter_digitos_take filter_digitos_drop filter_digitos_take_drop partes_resto_6)
  next
    case 4
    then show ?thesis
      by (simp add: formatar_cpf_def Let_def re_sub_nao_digitos_def py_slice_def ponto_nao_digito
          filter_digitos_take filter_digitos_drop filter_digitos_take_drop partes_resto_9)
  next
    case 5
    then show ?thesis
      by (simp add: formatar_cpf_def Let_def re_sub_nao_digitos_def py_slice_def ponto_nao_digito
          filter_digitos_take filter_digitos_drop filter_digitos_take_drop partes_11)
  qed
qed

lemma formatar_cpf_primeiros_11:
  "formatar_cpf (take 11 (re_sub_nao_digitos s)) = formatar_cpf s"
proof -
  let ?d = "re_sub_nao_digitos s"
  have r: "re_sub_nao_digitos (take 11 ?d) = take 11 ?d"
    by (rule re_sub_nao_digitos_take)
  show ?thesis
  proof (cases "length ?d \<le> 11")
    case True
    then have "take 11 ?d = ?d" by simp
    then have "re_sub_nao_digitos (take 11 ?d) = re_sub_nao_digitos s"
      using r by simp
    then show ?thesis by (rule formatar_cpf_digitos)
  next
    case False
    then have l: "length (take 11 ?d) = 11" by simp
    have "formatar_cpf (take 11 ?d)
            = take 3 (take 11 ?d) @ ''.'' @ py_slice 3 6 (take 11 ?d) @ ''.''
              @ py_slice 6 9 (take 11 ?d) @ ''-'' @ drop 9 (take 11 ?d)"
      unfolding formatar_cpf_def r Let_def l by simp
    also have "\<dots> = take 3 ?d @ ''.'' @ py_slice 3 6 ?d @ ''.'' @ py_slice 6 9 ?d @ ''-'' @ py_slice 9 11 ?d"
      by (simp add: py_slice_def drop_take)
    also have "\<dots> = formatar_cpf s"
      using False by (simp add: formatar_cpf_def Let_def)
    finally show ?thesis .
  qed
qed

text \<open>The ASCII digits are the ten characters from "0" to "9".\<close>

lemma digito_ascii_conjunto: "digito_ascii c \<longleftrightarrow> c \<in> set ''0123456789''"
proof
  assume "digito_ascii c"
  then have "48 \<le> (of_char c :: nat)" "(of_char c :: nat) \<le> 57"
    by (simp_all add: digito_ascii_def Let_def)
  moreover have "n \<in> {48, 49, 50, 51, 52, 53, 54, 55, 56, 57}"
    if "48 \<le> n" "n \<le> 57" for n :: nat
    using that by simp arith
  ultimately have "(of_char c :: nat) \<in> {48, 49, 50, 51, 52, 53, 54, 55, 56, 57}"
    by blast
  also have "{48, 49, 50, 51, 52, 53, 54, 55, 56, 57} = (of_char :: char \<Rightarrow> nat) ` set ''0123456789''"
    by simp
  finally obtain d where d: "d \<in> set ''0123456789''" and "(of_char c :: nat) = of_char d"
    by (rule imageE)
  then have "c = d"
    by (simp only: of_char_eq_iff)
  with d show "c \<in> set ''0123456789''"
    by (simp only:)
next
  assume "c \<in> set ''0123456789''"
  then show "digito_ascii c"
    by (auto simp: digito_ascii_def)
qed

text \<open>
  Claim C6. The formatter strips punctuation itself: it keeps the ASCII digits of its input,
  in order, and masks them progressively by their number. Up to three digits stay as they
  are; four to six get a dot after the third; seven to nine a second dot after the sixth;
  ten and eleven a hyphen after the ninth; of more than eleven the first eleven are masked.
  So "123" stays "123", "123456" becomes "123.456", "123456789" becomes "123.456.789" and
  "12345678909" becomes "123.456.789-09". Stripping the result gives back the first eleven
  digits, and the formatter is idempotent on every input string.
\<close>

theorem formatar_cpf_idempotente:
  "re_sub_nao_digitos s = filter (\<lambda>c. c \<in> set ''0123456789'') s
   \<and> (length (re_sub_nao_digitos s) \<le> 3 \<longrightarrow> formatar_cpf s = re_sub_nao_digitos s)
   \<and> (3 < length (re_sub_nao_digitos s) \<and> length (re_sub_nao_digitos s) \<le> 6 \<longrightarrow>
        formatar_cpf s = take 3 (re_sub_nao_digitos s) @ ''.'' @ drop 3 (re_sub_nao_digitos s))
   \<and> (6 < length (re_sub_nao_digitos s) \<and> length (re_sub_nao_digitos s) \<le> 9 \<longrightarrow>
        formatar_cpf s = take 3 (re_sub_nao_digitos s) @ ''.''
          @ take 3 (drop 3 (re_sub_nao_digitos s)) @ ''.'' @ drop 6 (re_sub_nao_digitos s))
   \<and> (9 < length (re_sub_nao_digitos s) \<and> length (re_sub_nao_digitos s) \<le> 11 \<longrightarrow>
        formatar_cpf s = take 3 (re_sub_nao_digitos s) @ ''.''
          @ take 3 (drop 3 (re_sub_nao_digitos s)) @ ''.''
          @ take 3 (drop 6 (re_sub_nao_digitos s)) @ ''-'' @ drop 9 (re_sub_nao_digitos s))
   \<and> (11 < length (re_sub_nao_digitos s) \<longrightarrow>
        formatar_cpf s = take 3 (re_sub_nao_digitos s) @ ''.''
          @ take 3 (drop 3 (re_sub_nao_digitos s)) @ ''.''
          @ take 3 (drop 6 (re_sub_nao_digitos s)) @ ''-''
          @ take 2 (drop 9 (re_sub_nao_digitos s)))
   \<and> formatar_cpf ''123'' = ''123''
   \<and> formatar_cpf ''123456'' = ''123.456''
   \<and> formatar_cpf ''123456789'' = ''123.456.789''
   \<and> formatar_cpf ''12345678909'' = ''123.456.789-09''
   \<and> re_sub_nao_digitos (formatar_cpf s) = take 11 (re_sub_nao_digitos s)
   \<and> formatar_cpf (formatar_cpf s) = formatar_cpf s"
proof -
  let ?d = "re_sub_nao_digitos s"
  have st: "?d = filter (\<lambda>c. c \<in> set ''0123456789'') s"
    unfolding re_sub_nao_digitos_def
    by (rule filter_cong) (simp_all only: digito_ascii_conjunto)
  have m1: "length ?d \<le> 3 \<longrightarrow> formatar_cpf s = ?d"
    by (simp add: formatar_cpf_def Let_def)
  have m2: "3 < length ?d \<and> length ?d \<le> 6 \<longrightarrow> formatar_cpf s = take 3 ?d @ ''.'' @ drop 3 ?d"
    by (simp add: formatar_cpf_def Let_def)
  have m3: "6 < length ?d \<and> length ?d \<le> 9 \<longrightarrow>
        formatar_cpf s = take 3 ?d @ ''.'' @ take 3 (drop 3 ?d) @ ''.'' @ drop 6 ?d"
    by (simp add: formatar_cpf_def Let_def py_slice_def)
  have m4: "9 < length ?d \<and> length ?d \<le> 11 \<longrightarrow>
        formatar_cpf s = take 3 ?d @ ''.'' @ take 3 (drop 3 ?d) @ ''.''
          @ take 3 (drop 6 ?d) @ ''-'' @ drop 9 ?d"
    by (simp add: formatar_cpf_def Let_def py_slice_def)
  have m5: "11 < length ?d \<longrightarrow>
        formatar_cpf s = take 3 ?d @ ''.'' @ take 3 (drop 3 ?d) @ ''.''
          @ take 3 (drop 6 ?d) @ ''-'' @ take 2 (drop 9 ?d)"
    by (simp add: formatar_cpf_def Let_def py_slice_def)
  have r: "re_sub_nao_digitos (formatar_cpf s) = take 11 ?d"
    by (rule re_sub_formatar_cpf)
  have "re_sub_nao_digitos (formatar_cpf s) = re_sub_nao_digitos (take 11 ?d)"
    by (simp only: re_sub_formatar_cpf re_sub_nao_digitos_take)
  then have "formatar_cpf (formatar_cpf s) = formatar_cpf (take 11 ?d)"
    by (rule formatar_cpf_digitos)
  then have i: "formatar_cpf (formatar_cpf s) = formatar_cpf s"
    by (simp only: formatar_cpf_primeiros_11)
  have e1: "formatar_cpf ''123'' = ''123''" by code_simp
  have e2: "formatar_cpf ''123456'' = ''123.456''" by code_simp
  have e3: "formatar_cpf ''123456789'' = ''123.456.789''" by code_simp
  have e4: "formatar_cpf ''12345678909'' = ''123.456.789-09''" by code_simp
  show ?thesis
    by (intro conjI st m1 m2 m3 m4 m5 e1 e2 e3 e4 r i)
qed

text \<open>
  One input for each of the first four ranges, with a letter, dots or spaces between the
  digits; the last one formatted twice.
\<close>

theorem formatar_cpf_idempotente_witness:
  "length (re_sub_nao_digitos ''1a2'') \<le> 3
   \<and> formatar_cpf ''1a2'' = ''12''
   \<and> 3 < length (re_sub_nao_digitos ''1234'') \<and> length (re_sub_nao_digitos ''1234'') \<le> 6
   \<and> formatar_cpf ''1234'' = ''123.4''
   \<and> 6 < length (re_sub_nao_digitos ''123.456.78'') \<and> length (re_sub_nao_digitos ''123.456.78'') \<le> 9
   \<and> formatar_cpf ''123.456.78'' = ''123.456.78''
   \<and> 9 < length (re_sub_nao_digitos ''123 456 789 0'') \<and> length (re_sub_nao_digitos ''123 456 789 0'') \<le> 11
   \<and> formatar_cpf ''123 456 789 0'' = ''123.456.789-0''
   \<and> formatar_cpf (formatar_cpf ''123 456 789 0'') = ''123.456.789-0''"
proof -
  have d1: "re_sub_nao_digitos ''1a2'' = ''12''" by code_simp
  have d2: "re_sub_nao_digitos ''1234'' = ''1234''" by code_simp
  have d3: "re_sub_nao_digitos ''123.456.78'' = ''12345678''" by code_simp
  have d4: "re_sub_nao_digitos ''123 456 789 0'' = ''1234567890''" by code_simp
  have h1: "length (re_sub_nao_digitos ''1a2'') \<le> 3"
    by (simp add: d1)
  have h2: "3 < length (re_sub_nao_digitos ''1234'') \<and> length (re_sub_nao_digitos ''1234'') \<le> 6"
    by (simp add: d2)
  have h3: "6 < length (re_sub_nao_digitos ''123.456.78'')
              \<and> length (re_sub_nao_digitos ''123.456.78'') \<le> 9"
    by (simp add: d3)
  have h4: "9 < length (re_sub_nao_digitos ''123 456 789 0'')
              \<and> length (re_sub_nao_digitos ''123 456 789 0'') \<le> 11"
    by (simp add: d4)
  note t1 = formatar_cpf_idempotente [of "''1a2''"]
  note t2 = formatar_cpf_idempotente [of "''1234''"]
  note t3 = formatar_cpf_idempotente [of "''123.456.78''"]
  note t4 = formatar_cpf_idempotente [of "''123 456 789 0''"]
  have "formatar_cpf ''1a2'' = re_sub_nao_digitos ''1a2''"
    using t1 [THEN conjunct2, THEN conjunct1] h1 by (rule mp)
  then have w1: "formatar_cpf ''1a2'' = ''12''"
    by (simp only: d1)
  have "formatar_cpf ''1234'' = take 3 (re_sub_nao_digitos ''1234'') @ ''.''
          @ drop 3 (re_sub_nao_digitos ''1234'')"
    using t2 [THEN conjunct2, THEN conjunct2, THEN conjunct1] h2 by (rule mp)
  then have w2: "formatar_cpf ''1234'' = ''123.4''"
    by (simp add: d2)
  have "formatar_cpf ''123.456.78'' = take 3 (re_sub_nao_digitos ''123.456.78'') @ ''.''
          @ take 3 (drop 3 (re_sub_nao_digitos ''123.456.78'')) @ ''.''
          @ drop 6 (re_sub_nao_digitos ''123.456.78'')"
    using t3 [THEN conjunct2, THEN conjunct2, THEN conjunct2, THEN conjunct1] h3 by (rule mp)
  then have w3: "formatar_cpf ''123.456.78'' = ''123.456.78''"
    by (simp add: d3)
  have "formatar_cpf ''123 456 789 0'' = take 3 (re_sub_nao_digitos ''123 456 789 0'') @ ''.''
          @ take 3 (drop 3 (re_sub_nao_digitos ''123 456 789 0'')) @ ''.''
          @ take 3 (drop 6 (re_sub_nao_digitos ''123 456 789 0'')) @ ''-''
          @ drop 9 (re_sub_nao_digitos ''123 456 789 0'')"
    using t4 [THEN conjunct2, THEN conjunct2, THEN conjunct2, THEN conjunct2, THEN conjunct1] h4
    by (rule mp)
  then have w4: "formatar_cpf ''123 456 789 0'' = ''123.456.789-0''"
    by (simp add: d4)
  have "formatar_cpf (formatar_cpf ''123 456 789 0'') = formatar_cpf ''123 456 789 0''"
    using t4 by (elim conjE)
  then have w5: "formatar_cpf (formatar_cpf ''123 456 789 0'') = ''123.456.789-0''"
    by (simp only: w4)
  show ?thesis
    using h1 h2 h3 h4 by (intro conjI w1 w2 w3 w4 w5) (elim conjE, assumption)+
qed

text \<open>
  Claim C9. When more than eleven digits remain after stripping, the formatter keeps the
  first eleven and returns them fully masked as XXX.XXX.XXX-XX (fourteen characters); the
  digits after the eleventh are dropped, the result is that of the first eleven digits alone
  and no input is rejected.
\<close>

theorem formatar_cpf_trunca:
  assumes "11 < length (re_sub_nao_digitos s)"
  shows "formatar_cpf s =
           take 3 (re_sub_nao_digitos s) @ ''.'' @ take 3 (drop 3 (re_sub_nao_digitos s)) @ ''.''
           @ take 3 (drop 6 (re_sub_nao_digitos s)) @ ''-'' @ take 2 (drop 9 (re_sub_nao_digitos s))
         \<and> formatar_cpf s = formatar_cpf (take 11 (re_sub_nao_digitos s))
         \<and> re_sub_nao_digitos (formatar_cpf s) = take 11 (re_sub_nao_digitos s)
         \<and> length (formatar_cpf s) = 14"
proof -
  have a: "formatar_cpf s =
           take 3 (re_sub_nao_digitos s) @ ''.'' @ take 3 (drop 3 (re_sub_nao_digitos s)) @ ''.''
           @ take 3 (drop 6 (re_sub_nao_digitos s)) @ ''-'' @ take 2 (drop 9 (re_sub_nao_digitos s))"
    using assms by (simp add: formatar_cpf_def Let_def py_slice_def)
  have b: "formatar_cpf s = formatar_cpf (take 11 (re_sub_nao_digitos s))"
    by (simp only: formatar_cpf_primeiros_11)
  have c: "re_sub_nao_digitos (formatar_cpf s) = take 11 (re_sub_nao_digitos s)"
    by (rule re_sub_formatar_cpf)
  have d: "length (formatar_cpf s) = 14"
    using assms by (simp add: a)
  show ?thesis
    by (intro conjI a b c d)
qed

text \<open>
  Fourteen digits, typed with punctuation: the last three are dropped.
\<close>

theorem formatar_cpf_trunca_witness:
  "11 < length (re_sub_nao_digitos ''123.456.789-09123'')
   \<and> formatar_cpf ''123.456.789-09123'' = ''123.456.789-09''
   \<and> formatar_cpf ''123.456.789-09123'' = formatar_cpf ''12345678909''"
proof -
  have h: "11 < length (re_sub_nao_digitos ''123.456.789-09123'')"
    by code_simp
  have d: "re_sub_nao_digitos ''123.456.789-09123'' = ''12345678909123''"
    by code_simp
  have e: "formatar_cpf ''12345678909'' = ''123.456.789-09''"
    by code_simp
  show ?thesis
    using h formatar_cpf_trunca [OF h] e
    by (simp add: d)
qed

section \<open>The national-id check\<close>

lemma py_int_char_inj: "py_int_char a = py_int_char b \<longleftrightarrow> a = b"
  by (auto simp: py_int_char_def)

lemma onze_elementos:
  assumes "length d = 11"
  obtains a0 a1 a2 a3 a4 a5 a6 a7 a8 a9 a10
  where "d = [a0, a1, a2, a3, a4, a5, a6, a7, a8, a9, a10]"
proof -
  from assms have "length d = Suc (Suc (Suc (Suc (Suc (Suc (Suc (Suc (Suc (Suc (Suc 0))))))))))"
    by simp
  then show ?thesis
    using that by (auto simp: length_Suc_conv)
qed

lemma indices_9: "[0..<9] = [0, 1, 2, 3, 4, 5, 6, 7, 8]"
  by (simp add: upt_rec)

lemma indices_10: "[0..<10] = [0, 1, 2, 3, 4, 5, 6, 7, 8, 9]"
  by (simp add: upt_rec)

lemma replicate_11: "replicate 11 x = [x, x, x, x, x, x, x, x, x, x, x]"
  by (simp add: eval_nat_numeral)

lemma validar_cpf_comprimento:
  "length (re_sub_nao_digitos s) \<noteq> 11 \<Longrightarrow> \<not> validar_cpf s"
  by (simp add: validar_cpf_def)

lemma validar_cpf_iguais:
  "re_sub_nao_digitos s = replicate 11 c \<Longrightarrow> \<not> validar_cpf s"
  by (simp add: validar_cpf_def Let_def)

text \<open>On eleven digits, the sums over the indices are the sums over the weights.\<close>

lemma soma_primeiro_digito:
  assumes "length d = 11"
  shows "sum_list (map (\<lambda>i. py_int_char (d ! i) * (10 - int i)) [0..<9])
           = sum_list (map2 (*) [10, 9, 8, 7, 6, 5, 4, 3, 2] (take 9 (map py_int_char d)))"
proof -
  from assms obtain a0 a1 a2 a3 a4 a5 a6 a7 a8 a9 a10
    where d: "d = [a0, a1, a2, a3, a4, a5, a6, a7, a8, a9, a10]"
    by (rule onze_elementos)
  show ?thesis
    unfolding d indices_9 by simp
qed

lemma soma_segundo_digito:
  assumes "length d = 11"
  shows "sum_list (map (\<lambda>i. py_int_char (d ! i) * (11 - int i)) [0..<10])
           = sum_list (map2 (*) [11, 10, 9, 8, 7, 6, 5, 4, 3, 2] (take 10 (map py_int_char d)))"
proof -
  from assms obtain a0 a1 a2 a3 a4 a5 a6 a7 a8 a9 a10
    where d: "d = [a0, a1, a2, a3, a4, a5, a6, a7, a8, a9, a10]"
    by (rule onze_elementos)
  show ?thesis
    unfolding d indices_10 by simp
qed

lemma todos_iguais:
  assumes "length d = 11"
  shows "(d = replicate 11 (d ! 0))
           = list_all (\<lambda>x. x = hd (map py_int_char d)) (map py_int_char d)"
proof -
  from assms obtain a0 a1 a2 a3 a4 a5 a6 a7 a8 a9 a10
    where d: "d = [a0, a1, a2, a3, a4, a5, a6, a7, a8, a9, a10]"
    by (rule onze_elementos)
  show ?thesis
    unfolding d replicate_11 by (simp add: py_int_char_inj eq_commute)
qed

lemma validar_cpf_spec: "validar_cpf s = cpf_valido_spec s"
proof (cases "length (filter digito_ascii s) = 11")
  case False
  then show ?thesis
    by (simp add: validar_cpf_def cpf_valido_spec_def re_sub_nao_digitos_def)
next
  case True
  let ?d = "filter digito_ascii s"
  have n9: "map py_int_char ?d ! 9 = py_int_char (?d ! 9)"
    using True by simp
  have n10: "map py_int_char ?d ! 10 = py_int_char (?d ! 10)"
    using True by simp
  show ?thesis
    unfolding validar_cpf_def cpf_valido_spec_def re_sub_nao_digitos_def Let_def
      digito_verificador_def
      soma_primeiro_digito [OF True] soma_segundo_digito [OF True] todos_iguais [OF True]
      n9 n10
    using True by auto
qed

text \<open>
  Claim C5. The validator rejects every input whose digits, after stripping, are not
  eleven (in particular fewer than eleven) or are eleven times the same digit. It agrees
  with the check as the specification words it; so on eleven digits that are not all the
  same it accepts exactly when the two check digits, computed from the weighted sums with
  weights 10 down to 2 and 11 down to 2, equal the last two digits. "12345678909" is
  accepted and "11111111111" is rejected.
\<close>

theorem validar_cpf_correto:
  "(length (re_sub_nao_digitos s) \<noteq> 11 \<longrightarrow> \<not> validar_cpf s)
   \<and> (length (re_sub_nao_digitos s) < 11 \<longrightarrow> \<not> validar_cpf s)
   \<and> (re_sub_nao_digitos s = replicate 11 c \<longrightarrow> \<not> validar_cpf s)
   \<and> validar_cpf s = cpf_valido_spec s
   \<and> (length (re_sub_nao_digitos s) = 11
        \<and> \<not> list_all (\<lambda>x. x = hd (re_sub_nao_digitos s)) (re_sub_nao_digitos s) \<longrightarrow>
        validar_cpf s =
          (digito_verificador [10, 9, 8, 7, 6, 5, 4, 3, 2]
               (take 9 (map py_int_char (re_sub_nao_digitos s)))
             = py_int_char (re_sub_nao_digitos s ! 9)
           \<and> digito_verificador [11, 10, 9, 8, 7, 6, 5, 4, 3, 2]
               (take 10 (map py_int_char (re_sub_nao_digitos s)))
             = py_int_char (re_sub_nao_digitos s ! 10)))
   \<and> validar_cpf ''12345678909''
   \<and> \<not> validar_cpf ''11111111111''"
proof -
  let ?d = "re_sub_nao_digitos s"
  have a: "length ?d \<noteq> 11 \<longrightarrow> \<not> validar_cpf s"
    by (simp add: validar_cpf_comprimento)
  have b: "length ?d < 11 \<longrightarrow> \<not> validar_cpf s"
    by (simp add: validar_cpf_comprimento)
  have c: "?d = replicate 11 c \<longrightarrow> \<not> validar_cpf s"
    by (simp add: validar_cpf_iguais)
  have e: "validar_cpf s = cpf_valido_spec s"
    by (rule validar_cpf_spec)
  have f: "validar_cpf s =
          (digito_verificador [10, 9, 8, 7, 6, 5, 4, 3, 2] (take 9 (map py_int_char ?d))
             = py_int_char (?d ! 9)
           \<and> digito_verificador [11, 10, 9, 8, 7, 6, 5, 4, 3, 2] (take 10 (map py_int_char ?d))
             = py_int_char (?d ! 10))"
    if l: "length ?d = 11" and n: "\<not> list_all (\<lambda>x. x = hd ?d) ?d"
  proof -
    have "hd (map py_int_char ?d) = py_int_char (hd ?d)"
      using l by (cases ?d) simp_all
    then have "\<not> list_all (\<lambda>x. x = hd (map py_int_char ?d)) (map py_int_char ?d)"
      using n by (simp add: list_all_iff py_int_char_inj)
    then show ?thesis
      using l unfolding e cpf_valido_spec_def Let_def re_sub_nao_digitos_def by simp
  qed
  have g: "validar_cpf ''12345678909''"
    by code_simp
  have h: "\<not> validar_cpf ''11111111111''"
    by code_simp
  show ?thesis
    using f by (intro conjI a b c e g h) simp
qed

text \<open>
  A valid number typed with punctuation, a number of nine digits and a number of eleven equal digits.
\<close>

theorem validar_cpf_correto_witness:
  "length (re_sub_nao_digitos ''529.982.247-25'') = 11
   \<and> \<not> list_all (\<lambda>x. x = hd (re_sub_nao_digitos ''529.982.247-25''))
         (re_sub_nao_digitos ''529.982.247-25'')
   \<and> validar_cpf ''529.982.247-25''
   \<and> cpf_valido_spec ''529.982.247-25''
   \<and> length (re_sub_nao_digitos ''123.456.789'') < 11
   \<and> \<not> validar_cpf ''123.456.789''
   \<and> re_sub_nao_digitos ''111.111.111-11'' = replicate 11 CHR ''1''
   \<and> \<not> validar_cpf ''111.111.111-11''"
proof -
  have l: "length (re_sub_nao_digitos ''529.982.247-25'') = 11"
    by code_simp
  have n: "\<not> list_all (\<lambda>x. x = hd (re_sub_nao_digitos ''529.982.247-25''))
         (re_sub_nao_digitos ''529.982.247-25'')"
    by code_simp
  have v: "validar_cpf ''529.982.247-25''"
    by code_simp
  have k: "length (re_sub_nao_digitos ''123.456.789'') < 11"
    by code_simp
  have r: "re_sub_nao_digitos ''111.111.111-11'' = replicate 11 CHR ''1''"
    by code_simp
  have w1: "cpf_valido_spec ''529.982.247-25''"
    using validar_cpf_correto [of "''529.982.247-25''" "CHR ''5''"] v by simp
  have w2: "\<not> validar_cpf ''123.456.789''"
    using validar_cpf_correto [of "''123.456.789''" "CHR ''1''"] k by simp
  have w3: "\<not> validar_cpf ''111.111.111-11''"
    using validar_cpf_correto [of "''111.111.111-11''" "CHR ''1''"] r by simp
  show ?thesis
    by (intro conjI l n v w1 k w2 r w3)
qed

section \<open>The name validator\<close>

text \<open>What is left after a run of characters that are not white space is empty or starts with white space.\<close>

lemma resto_comeca_com_espaco:
  "dropWhile (\<lambda>x. \<not> py_isspace x) cs = [] \<or> py_isspace (hd (dropWhile (\<lambda>x. \<not> py_isspace x) cs))"
  using hd_dropWhile [of "\<lambda>x. \<not> py_isspace x" cs] by auto

text \<open>Two tokens need a separator: \<open>k\<close> tokens take at least \<open>2 k - 1\<close> characters.\<close>

lemma py_split_comprimento:
  "2 * length (py_split s) \<le> length s + (if s = [] \<or> py_isspace (hd s) then 0 else 1)"
proof (induction s rule: py_split.induct)
  case 1
  show ?case by simp
next
  case (2 c cs)
  show ?case
  proof (cases "py_isspace c")
    case True
    with 2 show ?thesis by (simp split: if_splits)
  next
    case False
    let ?r = "dropWhile (\<lambda>x. \<not> py_isspace x) cs"
    have "2 * length (py_split ?r) \<le> length ?r"
      using 2(2) [OF False] resto_comeca_com_espaco [of cs] by auto
    moreover have "length ?r \<le> length cs"
      by (rule length_dropWhile_le)
    ultimately show ?thesis
      using False by simp
  qed
qed

lemma dois_tokens_tres_caracteres: "2 \<le> length (py_split s) \<Longrightarrow> 3 \<le> length s"
  using py_split_comprimento [of s] by (simp split: if_splits)

text \<open>Every token holds a character that is not white space.\<close>

lemma py_split_nao_espacos:
  "length (py_split s) \<le> length (filter (\<lambda>c. \<not> py_isspace c) s)"
proof (induction s rule: py_split.induct)
  case 1
  show ?case by simp
next
  case (2 c cs)
  show ?case
  proof (cases "py_isspace c")
    case True
    with 2 show ?thesis by simp
  next
    case False
    let ?r = "dropWhile (\<lambda>x. \<not> py_isspace x) cs"
    have "length (filter (\<lambda>c. \<not> py_isspace c) ?r) \<le> length (filter (\<lambda>c. \<not> py_isspace c) cs)"
    proof -
      have "cs = takeWhile (\<lambda>x. \<not> py_isspace x) cs @ ?r" by simp
      then have "filter (\<lambda>c. \<not> py_isspace c) cs
                   = filter (\<lambda>c. \<not> py_isspace c) (takeWhile (\<lambda>x. \<not> py_isspace x) cs)
                     @ filter (\<lambda>c. \<not> py_isspace c) ?r"
        by (metis filter_append)
      then show ?thesis by simp
    qed
    then show ?thesis
      using 2(2) [OF False] False by simp
  qed
qed

lemma filter_dropWhile_espacos:
  "filter (\<lambda>c. \<not> py_isspace c) (dropWhile py_isspace s) = filter (\<lambda>c. \<not> py_isspace c) s"
  by (induction s) simp_all

lemma filter_py_strip:
  "filter (\<lambda>c. \<not> py_isspace c) (py_strip s) = filter (\<lambda>c. \<not> py_isspace c) s"
proof -
  have "filter (\<lambda>c. \<not> py_isspace c) (py_strip s)
          = rev (filter (\<lambda>c. \<not> py_isspace c) (dropWhile py_isspace (rev (dropWhile py_isspace s))))"
    by (simp add: py_strip_def rev_filter)
  also have "\<dots> = rev (filter (\<lambda>c. \<not> py_isspace c) (rev (dropWhile py_isspace s)))"
    by (simp only: filter_dropWhile_espacos)
  also have "\<dots> = filter (\<lambda>c. \<not> py_isspace c) (dropWhile py_isspace s)"
    by (simp add: rev_filter)
  finally show ?thesis
    by (simp only: filter_dropWhile_espacos)
qed

lemma validar_nome_completo_ok:
  "fst (validar_nome_completo nome)
     \<longleftrightarrow> 2 \<le> length (py_split (py_strip nome)) \<and> \<not> list_ex py_isdigit nome"
proof -
  have "3 \<le> length (py_strip nome)" if "2 \<le> length (py_split (py_strip nome))"
    using that by (rule dois_tokens_tres_caracteres)
  moreover have "nome \<noteq> []" if "3 \<le> length (py_strip nome)"
    using that by (auto simp: py_strip_def)
  ultimately show ?thesis
    by (auto simp: validar_nome_completo_def Let_def)
qed

text \<open>
  Claim C8, as the code has it. The name validator fails with "Nome deve ter pelo menos 3
  caracteres" when the name, stripped of the white space around it, has fewer than three
  characters (inner spaces count); hence it fails for every name with fewer than two
  characters that are not white space. It fails when the name has fewer than two tokens
  separated by white space, and when the name holds a digit. Every other name is accepted
  with the empty message: a name is accepted exactly when it has two tokens and no digit.
\<close>

theorem validar_nome_completo_casos:
  "(length (py_strip nome) < 3 \<longrightarrow> validar_nome_completo nome = (False, NomeCurto))
   \<and> (length (filter (\<lambda>c. \<not> py_isspace c) nome) < 2 \<longrightarrow> \<not> fst (validar_nome_completo nome))
   \<and> (length (py_split (py_strip nome)) < 2 \<longrightarrow> \<not> fst (validar_nome_completo nome))
   \<and> (list_ex py_isdigit nome \<longrightarrow> \<not> fst (validar_nome_completo nome))
   \<and> (3 \<le> length (py_strip nome) \<and> 2 \<le> length (py_split (py_strip nome))
        \<and> \<not> list_ex py_isdigit nome \<longrightarrow> validar_nome_completo nome = (True, SemMensagem))
   \<and> (fst (validar_nome_completo nome)
        \<longleftrightarrow> 2 \<le> length (py_split (py_strip nome)) \<and> \<not> list_ex py_isdigit nome)"
proof -
  have a: "length (py_strip nome) < 3 \<longrightarrow> validar_nome_completo nome = (False, NomeCurto)"
    by (simp add: validar_nome_completo_def)
  have b: "length (filter (\<lambda>c. \<not> py_isspace c) nome) < 2 \<longrightarrow> \<not> fst (validar_nome_completo nome)"
  proof
    assume "length (filter (\<lambda>c. \<not> py_isspace c) nome) < 2"
    then have "length (filter (\<lambda>c. \<not> py_isspace c) (py_strip nome)) < 2"
      by (simp only: filter_py_strip)
    then have "length (py_split (py_strip nome)) < 2"
      using py_split_nao_espacos [of "py_strip nome"] by simp
    then show "\<not> fst (validar_nome_completo nome)"
      by (simp add: validar_nome_completo_ok)
  qed
  have c: "length (py_split (py_strip nome)) < 2 \<longrightarrow> \<not> fst (validar_nome_completo nome)"
    by (simp add: validar_nome_completo_ok)
  have d: "list_ex py_isdigit nome \<longrightarrow> \<not> fst (validar_nome_completo nome)"
    by (simp add: validar_nome_completo_ok)
  have e: "3 \<le> length (py_strip nome) \<and> 2 \<le> length (py_split (py_strip nome))
        \<and> \<not> list_ex py_isdigit nome \<longrightarrow> validar_nome_completo nome = (True, SemMensagem)"
    by (auto simp: validar_nome_completo_def Let_def py_strip_def)
  show ?thesis
    by (intro conjI a b c d e validar_nome_completo_ok)
qed

text \<open>
  An accepted name, and one name for each of the three failures.
\<close>

theorem validar_nome_completo_casos_witness:
  "3 \<le> length (py_strip ''  Joao da Silva '')
   \<and> 2 \<le> length (py_split (py_strip ''  Joao da Silva ''))
   \<and> \<not> list_ex py_isdigit ''  Joao da Silva ''
   \<and> validar_nome_completo ''  Joao da Silva '' = (True, SemMensagem)
   \<and> length (py_strip '' Jo '') < 3
   \<and> validar_nome_completo '' Jo '' = (False, NomeCurto)
   \<and> length (py_split (py_strip ''Joao'')) < 2
   \<and> \<not> fst (validar_nome_completo ''Joao'')
   \<and> list_ex py_isdigit ''Joao Silva 2''
   \<and> \<not> fst (validar_nome_completo ''Joao Silva 2'')"
proof -
  have h1: "3 \<le> length (py_strip ''  Joao da Silva '')" by code_simp
  have h2: "2 \<le> length (py_split (py_strip ''  Joao da Silva ''))" by code_simp
  have h3: "\<not> list_ex py_isdigit ''  Joao da Silva ''" by code_simp
  have h4: "length (py_strip '' Jo '') < 3" by code_simp
  have h5: "length (py_split (py_strip ''Joao'')) < 2" by code_simp
  have h6: "list_ex py_isdigit ''Joao Silva 2''" by code_simp
  have w1: "validar_nome_completo ''  Joao da Silva '' = (True, SemMensagem)"
    using validar_nome_completo_casos [of "''  Joao da Silva ''"] h1 h2 h3 by blast
  have w2: "validar_nome_completo '' Jo '' = (False, NomeCurto)"
    using validar_nome_completo_casos [of "'' Jo ''"] h4 by blast
  have w3: "\<not> fst (validar_nome_completo ''Joao'')"
    using validar_nome_completo_casos [of "''Joao''"] h5 by blast
  have w4: "\<not> fst (validar_nome_completo ''Joao Silva 2'')"
    using validar_nome_completo_casos [of "''Joao Silva 2''"] h6 by blast
  show ?thesis
    by (intro conjI h1 h2 h3 w1 h4 w2 h5 w3 h6 w4)
qed

text \<open>
  Claim C8, as stated, fails: the name "a b" has two characters that are not spaces, fewer
  than three, and is accepted, since its stripped length is three.
\<close>

theorem validar_nome_completo_counterexample:
  "length (filter (\<lambda>c. \<not> py_isspace c) ''a b'') < 3
   \<and> length (filter (\<lambda>c. c \<noteq> CHR '' '') ''a b'') < 3
   \<and> validar_nome_completo ''a b'' = (True, SemMensagem)"
  by code_simp

section \<open>Catalog and mandatory list\<close>

lemma set_fold_acrescentar:
  "set (fold (\<lambda>obrig os. if obrig \<notin> set os then os @ [obrig] else os) xs ys) = set ys \<union> set xs"
  by (induction xs arbitrary: ys) auto

lemma dom_fold_acrescentar:
  "dom (fold (\<lambda>obrig d. if d obrig = None then d(obrig \<mapsto> v) else d) xs m) = dom m \<union> set xs"
  by (induction xs arbitrary: m) auto

lemma garantir_obrigatorios:
  "set (procedimentos_obrigatorios (garantir_procedimentos_obrigatorios_completos s))
     = set (procedimentos_obrigatorios s) \<union> set obrigatorios_padrao"
  by (simp add: garantir_procedimentos_obrigatorios_completos_def Let_def set_fold_acrescentar)

lemma garantir_catalogo:
  "dom (procedimentos_db (garantir_procedimentos_obrigatorios_completos s))
     = dom (procedimentos_db s) \<union> set obrigatorios_padrao"
  by (simp add: garantir_procedimentos_obrigatorios_completos_def Let_def dom_fold_acrescentar)

lemma garantir_preserva:
  "obrigatorios_no_catalogo s \<Longrightarrow>
     obrigatorios_no_catalogo (garantir_procedimentos_obrigatorios_completos s)"
  unfolding obrigatorios_no_catalogo_def garantir_obrigatorios garantir_catalogo by auto

lemma adicionar_preserva:
  "obrigatorios_no_catalogo s \<Longrightarrow> obrigatorios_no_catalogo (snd (adicionar_procedimento p s))"
  by (auto simp: obrigatorios_no_catalogo_def adicionar_procedimento_def)

lemma remover_preserva:
  "obrigatorios_no_catalogo s \<Longrightarrow> p \<notin> set (procedimentos_obrigatorios s) \<Longrightarrow>
     obrigatorios_no_catalogo (snd (remover_procedimento_db p s))"
  by (auto simp: obrigatorios_no_catalogo_def remover_procedimento_db_def)

lemma alternar_preserva:
  "obrigatorios_no_catalogo s \<Longrightarrow> p \<in> dom (procedimentos_db s) \<Longrightarrow>
     obrigatorios_no_catalogo (snd (alternar_obrigatorio p s))"
  by (auto simp: obrigatorios_no_catalogo_def alternar_obrigatorio_def dest: notin_set_remove1)

text \<open>Replacing the only occurrence of a name leaves the other names and the new one.\<close>

lemma set_substituir_unico:
  "count_list xs a \<le> 1 \<Longrightarrow> a \<in> set xs \<Longrightarrow>
     set (xs[py_index xs a := n]) = insert n (set xs - {a})"
proof (induction xs)
  case Nil
  then show ?case by simp
next
  case (Cons x xs)
  show ?case
  proof (cases "x = a")
    case True
    with Cons.prems have "count_list xs a = 0" by simp
    then have "a \<notin> set xs" by (simp add: count_list_0_iff)
    with True show ?thesis by (simp add: py_index_def)
  next
    case False
    with Cons.prems have "count_list xs a \<le> 1" "a \<in> set xs" by simp_all
    then have "set (xs[py_index xs a := n]) = insert n (set xs - {a})"
      by (rule Cons.IH)
    with False show ?thesis by (auto simp: py_index_def)
  qed
qed

lemma editar_preserva:
  assumes "obrigatorios_no_catalogo s"
    and "count_list (procedimentos_obrigatorios s) antigo \<le> 1"
  shows "obrigatorios_no_catalogo (snd (editar_procedimento_db antigo novo s))"
proof (cases "procedimentos_db s antigo")
  case None
  with assms(1) show ?thesis by (simp add: editar_procedimento_db_def)
next
  case (Some dados_antigos)
  show ?thesis
  proof (cases "antigo \<in> set (procedimentos_obrigatorios s)")
    case True
    have "set ((procedimentos_obrigatorios s)[py_index (procedimentos_obrigatorios s) antigo := novo])
            = insert novo (set (procedimentos_obrigatorios s) - {antigo})"
      using assms(2) True by (rule set_substituir_unico)
    then show ?thesis
      using assms(1) Some True
      by (auto simp: editar_procedimento_db_def obrigatorios_no_catalogo_def Let_def)
  next
    case False
    then show ?thesis
      using assms(1) Some
      by (auto simp: editar_procedimento_db_def obrigatorios_no_catalogo_def Let_def)
  qed
qed

text \<open>
  Claim C3, as the code has it. The reconciliation at startup puts the three baseline names
  into the mandatory list and into the catalog, and keeps the property that every mandatory
  name is a catalog key when the loaded data has it. Adding a procedure keeps the property;
  removing a procedure keeps it when the removed name is not mandatory; toggling keeps it
  when the toggled name is a catalog key; renaming keeps it when the old name occurs at most
  once in the mandatory list. Nothing in the code enforces the property beyond that.
\<close>

theorem obrigatorios_no_catalogo_operacoes:
  "set obrigatorios_padrao
     \<subseteq> set (procedimentos_obrigatorios (garantir_procedimentos_obrigatorios_completos s))
   \<and> set obrigatorios_padrao
     \<subseteq> dom (procedimentos_db (garantir_procedimentos_obrigatorios_completos s))
   \<and> (obrigatorios_no_catalogo s \<longrightarrow>
        obrigatorios_no_catalogo (garantir_procedimentos_obrigatorios_completos s))
   \<and> (obrigatorios_no_catalogo s \<longrightarrow>
        obrigatorios_no_catalogo (snd (adicionar_procedimento p s)))
   \<and> (obrigatorios_no_catalogo s \<and> p \<notin> set (procedimentos_obrigatorios s) \<longrightarrow>
        obrigatorios_no_catalogo (snd (remover_procedimento_db p s)))
   \<and> (obrigatorios_no_catalogo s \<and> p \<in> dom (procedimentos_db s) \<longrightarrow>
        obrigatorios_no_catalogo (snd (alternar_obrigatorio p s)))
   \<and> (obrigatorios_no_catalogo s \<and> count_list (procedimentos_obrigatorios s) antigo \<le> 1 \<longrightarrow>
        obrigatorios_no_catalogo (snd (editar_procedimento_db antigo novo s)))"
proof (intro conjI impI)
  show "set obrigatorios_padrao
     \<subseteq> set (procedimentos_obrigatorios (garantir_procedimentos_obrigatorios_completos s))"
    by (simp add: garantir_obrigatorios)
  show "set obrigatorios_padrao
     \<subseteq> dom (procedimentos_db (garantir_procedimentos_obrigatorios_completos s))"
    by (simp add: garantir_catalogo)
  show "obrigatorios_no_catalogo (garantir_procedimentos_obrigatorios_completos s)"
    if "obrigatorios_no_catalogo s"
    using that by (rule garantir_preserva)
  show "obrigatorios_no_catalogo (snd (adicionar_procedimento p s))"
    if "obrigatorios_no_catalogo s"
    using that by (rule adicionar_preserva)
  show "obrigatorios_no_catalogo (snd (remover_procedimento_db p s))"
    if "obrigatorios_no_catalogo s \<and> p \<notin> set (procedimentos_obrigatorios s)"
    using that by (simp add: remover_preserva)
  show "obrigatorios_no_catalogo (snd (alternar_obrigatorio p s))"
    if "obrigatorios_no_catalogo s \<and> p \<in> dom (procedimentos_db s)"
    using that by (simp add: alternar_preserva)
  show "obrigatorios_no_catalogo (snd (editar_procedimento_db antigo novo s))"
    if "obrigatorios_no_catalogo s \<and> count_list (procedimentos_obrigatorios s) antigo \<le> 1"
    using that by (simp add: editar_preserva)
qed

text \<open>The state of a first start: no file exists, then the reconciliation runs.\<close>

lemma fold_inserir:
  "fold (\<lambda>proc db. db(proc \<mapsto> v)) xs m x = (if x \<in> set xs then Some v else m x)"
  by (induction xs arbitrary: m) auto

lemma fold_inserir_ausente:
  "fold (\<lambda>obrig d. if d obrig = None then d(obrig \<mapsto> v) else d) xs m x
     = (if m x = None \<and> x \<in> set xs then Some v else m x)"
  by (induction xs arbitrary: m) auto

lemma catalogo_primeiro_inicio:
  "procedimentos_db (garantir_procedimentos_obrigatorios_completos carregar_dados_sem_arquivos) x
     = (if x \<in> set procedimentos_iniciais then Some sem_laudo else None)"
proof -
  have "set obrigatorios_padrao \<subseteq> set procedimentos_iniciais"
    by (simp add: obrigatorios_padrao_def procedimentos_iniciais_def)
  then show ?thesis
    by (auto simp: garantir_procedimentos_obrigatorios_completos_def Let_def
        carregar_dados_sem_arquivos_def fold_inserir fold_inserir_ausente)
qed

lemma obrigatorios_primeiro_inicio:
  "procedimentos_obrigatorios (garantir_procedimentos_obrigatorios_completos carregar_dados_sem_arquivos)
     = obrigatorios_padrao"
  by (simp add: garantir_procedimentos_obrigatorios_completos_def Let_def
      carregar_dados_sem_arquivos_def obrigatorios_padrao_def)

lemma no_catalogo_primeiro_inicio:
  "obrigatorios_no_catalogo (garantir_procedimentos_obrigatorios_completos carregar_dados_sem_arquivos)"
  by (auto simp: obrigatorios_no_catalogo_def obrigatorios_primeiro_inicio dom_def
      catalogo_primeiro_inicio obrigatorios_padrao_def procedimentos_iniciais_def)

text \<open>
  The state of a first start has the property, and each operation keeps it under its condition.
\<close>

theorem obrigatorios_no_catalogo_operacoes_witness:
  "obrigatorios_no_catalogo (garantir_procedimentos_obrigatorios_completos carregar_dados_sem_arquivos)
   \<and> ''Glicemia'' \<notin> set (procedimentos_obrigatorios
          (garantir_procedimentos_obrigatorios_completos carregar_dados_sem_arquivos))
   \<and> ''Glicemia'' \<in> dom (procedimentos_db
          (garantir_procedimentos_obrigatorios_completos carregar_dados_sem_arquivos))
   \<and> count_list (procedimentos_obrigatorios
          (garantir_procedimentos_obrigatorios_completos carregar_dados_sem_arquivos)) ''Triagem'' \<le> 1
   \<and> obrigatorios_no_catalogo (garantir_procedimentos_obrigatorios_completos
          (garantir_procedimentos_obrigatorios_completos carregar_dados_sem_arquivos))
   \<and> obrigatorios_no_catalogo (snd (adicionar_procedimento ''Toxicologico''
          (garantir_procedimentos_obrigatorios_completos carregar_dados_sem_arquivos)))
   \<and> obrigatorios_no_catalogo (snd (remover_procedimento_db ''Glicemia''
          (garantir_procedimentos_obrigatorios_completos carregar_dados_sem_arquivos)))
   \<and> obrigatorios_no_catalogo (snd (alternar_obrigatorio ''Glicemia''
          (garantir_procedimentos_obrigatorios_completos carregar_dados_sem_arquivos)))
   \<and> obrigatorios_no_catalogo (snd (editar_procedimento_db ''Triagem'' ''Triagem Inicial''
          (garantir_procedimentos_obrigatorios_completos carregar_dados_sem_arquivos)))"
proof -
  let ?s = "garantir_procedimentos_obrigatorios_completos carregar_dados_sem_arquivos"
  have h1: "obrigatorios_no_catalogo ?s"
    by (rule no_catalogo_primeiro_inicio)
  have h2: "''Glicemia'' \<notin> set (procedimentos_obrigatorios ?s)"
    by (simp add: obrigatorios_primeiro_inicio obrigatorios_padrao_def exame_clinico_def)
  have h3: "''Glicemia'' \<in> dom (procedimentos_db ?s)"
    by (simp add: dom_def catalogo_primeiro_inicio procedimentos_iniciais_def)
  have h4: "count_list (procedimentos_obrigatorios ?s) ''Triagem'' \<le> 1"
    by (simp add: obrigatorios_primeiro_inicio obrigatorios_padrao_def exame_clinico_def)
  note t1 = obrigatorios_no_catalogo_operacoes [of ?s "''Toxicologico''" "''Triagem''" "''Triagem Inicial''"]
  note t2 = obrigatorios_no_catalogo_operacoes [of ?s "''Glicemia''" "''Triagem''" "''Triagem Inicial''"]
  have w1: "obrigatorios_no_catalogo (garantir_procedimentos_obrigatorios_completos ?s)"
    using t1 h1 by blast
  have w2: "obrigatorios_no_catalogo (snd (adicionar_procedimento ''Toxicologico'' ?s))"
    using t1 h1 by blast
  have w3: "obrigatorios_no_catalogo (snd (remover_procedimento_db ''Glicemia'' ?s))"
    using t2 h1 h2 by blast
  have w4: "obrigatorios_no_catalogo (snd (alternar_obrigatorio ''Glicemia'' ?s))"
    using t2 h1 h3 by blast
  have w5: "obrigatorios_no_catalogo (snd (editar_procedimento_db ''Triagem'' ''Triagem Inicial'' ?s))"
    using t2 h1 h4 by blast
  show ?thesis
    by (intro conjI h1 h2 h3 h4 w1 w2 w3 w4 w5)
qed

text \<open>
  Claim C3, as stated, fails. After a first start, removing "Triagem" from the catalog
  succeeds and leaves it in the mandatory list; and toggling a name that is not in the
  catalog makes it mandatory.
\<close>

theorem obrigatorios_no_catalogo_counterexample:
  "fst (remover_procedimento_db ''Triagem''
          (garantir_procedimentos_obrigatorios_completos carregar_dados_sem_arquivos))
   \<and> ''Triagem'' \<in> set (procedimentos_obrigatorios (snd (remover_procedimento_db ''Triagem''
          (garantir_procedimentos_obrigatorios_completos carregar_dados_sem_arquivos))))
   \<and> procedimentos_db (snd (remover_procedimento_db ''Triagem''
          (garantir_procedimentos_obrigatorios_completos carregar_dados_sem_arquivos))) ''Triagem'' = None
   \<and> \<not> obrigatorios_no_catalogo (snd (remover_procedimento_db ''Triagem''
          (garantir_procedimentos_obrigatorios_completos carregar_dados_sem_arquivos)))
   \<and> fst (alternar_obrigatorio ''Toxicologico''
          (garantir_procedimentos_obrigatorios_completos carregar_dados_sem_arquivos))
   \<and> \<not> obrigatorios_no_catalogo (snd (alternar_obrigatorio ''Toxicologico''
          (garantir_procedimentos_obrigatorios_completos carregar_dados_sem_arquivos)))"
proof -
  let ?s = "garantir_procedimentos_obrigatorios_completos carregar_dados_sem_arquivos"
  have t: "procedimentos_db ?s ''Triagem'' = Some sem_laudo"
    by (simp add: catalogo_primeiro_inicio procedimentos_iniciais_def)
  have r: "remover_procedimento_db ''Triagem'' ?s
             = (True, ?s\<lparr>procedimentos_db := (procedimentos_db ?s)(''Triagem'' := None)\<rparr>)"
    by (simp add: remover_procedimento_db_def t)
  have m: "''Triagem'' \<in> set (procedimentos_obrigatorios ?s)"
    by (simp add: obrigatorios_primeiro_inicio obrigatorios_padrao_def)
  have x: "procedimentos_db ?s ''Toxicologico'' = None"
    by (simp add: catalogo_primeiro_inicio procedimentos_iniciais_def exame_clinico_def
        raio_x_torax_def exame_dermatologico_def)
  have n: "''Toxicologico'' \<notin> set (procedimentos_obrigatorios ?s)"
    by (simp add: obrigatorios_primeiro_inicio obrigatorios_padrao_def exame_clinico_def)
  have a: "alternar_obrigatorio ''Toxicologico'' ?s
             = (True, ?s\<lparr>procedimentos_obrigatorios := procedimentos_obrigatorios ?s @ [''Toxicologico'']\<rparr>)"
    using n by (simp add: alternar_obrigatorio_def)
  have c1: "fst (remover_procedimento_db ''Triagem'' ?s)"
    by (simp add: r)
  have c2: "''Triagem'' \<in> set (procedimentos_obrigatorios (snd (remover_procedimento_db ''Triagem'' ?s)))"
    using m by (simp add: r)
  have c3: "procedimentos_db (snd (remover_procedimento_db ''Triagem'' ?s)) ''Triagem'' = None"
    by (simp add: r)
  have c4: "\<not> obrigatorios_no_catalogo (snd (remover_procedimento_db ''Triagem'' ?s))"
    using c2 c3 by (auto simp: obrigatorios_no_catalogo_def)
  have c5: "fst (alternar_obrigatorio ''Toxicologico'' ?s)"
    by (simp add: a)
  have c6: "\<not> obrigatorios_no_catalogo (snd (alternar_obrigatorio ''Toxicologico'' ?s))"
    using x by (auto simp: a obrigatorios_no_catalogo_def)
  show ?thesis
    by (intro conjI c1 c2 c3 c4 c5 c6)
qed

lemma exemplo_audiometria_catalogo:
  "procedimentos_db exemplo_audiometria_com_laudo x =
     (if x = ''Audiometria'' then Some (sem_laudo(''requer_laudo'' \<mapsto> True))
      else if x \<in> set procedimentos_iniciais then Some sem_laudo else None)"
proof -
  have "''Audiometria'' \<in> set procedimentos_iniciais"
    by (simp add: procedimentos_iniciais_def)
  then show ?thesis
    by (simp add: exemplo_audiometria_com_laudo_def definir_requer_laudo_def
        catalogo_primeiro_inicio)
qed

lemma exemplo_audiometria_obrigatorios:
  "procedimentos_obrigatorios exemplo_audiometria_com_laudo = obrigatorios_padrao"
proof -
  have "''Audiometria'' \<in> set procedimentos_iniciais"
    by (simp add: procedimentos_iniciais_def)
  then show ?thesis
    by (simp add: exemplo_audiometria_com_laudo_def definir_requer_laudo_def
        catalogo_primeiro_inicio obrigatorios_primeiro_inicio)
qed

text \<open>
  Claim C2: renaming onto a name that is already a key must fail and change nothing. The
  code tests only that the old name is a key and the new name is not empty. In the example
  "Audiometria" (with report) and "Glicemia" (without) are both keys; renaming the first to
  the second returns true, deletes the key "Audiometria" and overwrites the entry of
  "Glicemia", which now requires a report.
\<close>

theorem editar_procedimento_db_sobrescreve:
  "procedimentos_db exemplo_audiometria_com_laudo ''Audiometria'' \<noteq> None
   \<and> procedimentos_db exemplo_audiometria_com_laudo ''Glicemia'' \<noteq> None
   \<and> ''Audiometria'' \<noteq> ''Glicemia''
   \<and> \<not> procedimento_requer_laudo exemplo_audiometria_com_laudo ''Glicemia''
   \<and> fst (editar_procedimento_db ''Audiometria'' ''Glicemia'' exemplo_audiometria_com_laudo)
   \<and> procedimentos_db
         (snd (editar_procedimento_db ''Audiometria'' ''Glicemia'' exemplo_audiometria_com_laudo))
         ''Audiometria'' = None
   \<and> procedimento_requer_laudo
         (snd (editar_procedimento_db ''Audiometria'' ''Glicemia'' exemplo_audiometria_com_laudo))
         ''Glicemia''
   \<and> snd (editar_procedimento_db ''Audiometria'' ''Glicemia'' exemplo_audiometria_com_laudo)
       \<noteq> exemplo_audiometria_com_laudo"
proof -
  let ?s = "exemplo_audiometria_com_laudo"
  have a: "procedimentos_db ?s ''Audiometria'' = Some (sem_laudo(''requer_laudo'' \<mapsto> True))"
    by (simp add: exemplo_audiometria_catalogo)
  have g: "procedimentos_db ?s ''Glicemia'' = Some sem_laudo"
    by (simp add: exemplo_audiometria_catalogo procedimentos_iniciais_def)
  have n: "''Audiometria'' \<notin> set (procedimentos_obrigatorios ?s)"
    by (simp add: exemplo_audiometria_obrigatorios obrigatorios_padrao_def exame_clinico_def)
  have e: "editar_procedimento_db ''Audiometria'' ''Glicemia'' ?s
             = (True, ?s\<lparr>procedimentos_db :=
                   ((procedimentos_db ?s)(''Audiometria'' := None))
                     (''Glicemia'' \<mapsto> sem_laudo(''requer_laudo'' \<mapsto> True)),
                 procedimentos_obrigatorios := procedimentos_obrigatorios ?s\<rparr>)"
    using n by (simp add: editar_procedimento_db_def a Let_def)
  have c1: "procedimentos_db ?s ''Audiometria'' \<noteq> None"
    by (simp add: a)
  have c2: "procedimentos_db ?s ''Glicemia'' \<noteq> None"
    by (simp add: g)
  have c3: "''Audiometria'' \<noteq> ''Glicemia''"
    by simp
  have c4: "\<not> procedimento_requer_laudo ?s ''Glicemia''"
    by (simp add: procedimento_requer_laudo_def g sem_laudo_def)
  have c5: "fst (editar_procedimento_db ''Audiometria'' ''Glicemia'' ?s)"
    by (simp add: e)
  have c6: "procedimentos_db (snd (editar_procedimento_db ''Audiometria'' ''Glicemia'' ?s))
              ''Audiometria'' = None"
    by (simp add: e)
  have c7: "procedimento_requer_laudo
              (snd (editar_procedimento_db ''Audiometria'' ''Glicemia'' ?s)) ''Glicemia''"
    by (simp add: e procedimento_requer_laudo_def)
  have c8: "snd (editar_procedimento_db ''Audiometria'' ''Glicemia'' ?s) \<noteq> ?s"
    using c1 c6 by auto
  show ?thesis
    by (intro conjI c1 c2 c3 c4 c5 c6 c7 c8)
qed

section \<open>The layout of the checklist body\<close>

text \<open>The space of one row at given spacings.\<close>

lemma fold_espaco_necessario:
  "fold (\<lambda>proc espaco_total.
             let espaco_total = espaco_total + 25;
                 espaco_total = (if procedimento_requer_laudo s proc then espaco_total + 20
                                 else espaco_total)
             in espaco_total + 10) procs (acc :: int)
     = acc + (\<Sum>proc\<leftarrow>procs. 35 + (if procedimento_requer_laudo s proc then 20 else 0))"
  by (induction procs arbitrary: acc) (simp_all add: Let_def)

lemma calcular_espaco_necessario_soma:
  "calcular_espaco_necessario s procs
     = (\<Sum>proc\<leftarrow>procs. 35 + (if procedimento_requer_laudo s proc then 20 else 0))"
  unfolding calcular_espaco_necessario_def fold_espaco_necessario by simp

lemma calcular_espaco_necessario_positivo:
  "procs \<noteq> [] \<Longrightarrow> 0 < calcular_espaco_necessario s procs"
proof -
  have "0 \<le> (\<Sum>proc\<leftarrow>ps. 35 + (if procedimento_requer_laudo s proc then 20 else (0::int)))" for ps
    by (induction ps) simp_all
  then show "procs \<noteq> [] \<Longrightarrow> 0 < calcular_espaco_necessario s procs"
    unfolding calcular_espaco_necessario_soma by (cases procs) (simp_all add: add_pos_nonneg)
qed

lemma desenhar_procedimentos_soma:
  "desenhar_procedimentos s t procs y
     = y - of_int (\<Sum>proc\<leftarrow>procs. espaco_procedimento t
                      + (if procedimento_requer_laudo s proc then espaco_subitem t else 0)
                      + espaco_extra t)"
  by (induction procs arbitrary: y) (simp_all add: Let_def)

lemma py_int_abaixo: "0 \<le> x \<Longrightarrow> of_int (py_int x) \<le> x"
  by (simp add: py_int_def)

text \<open>Rows whose spacings are the truncated scaled ones take at most the scaled space.\<close>

lemma soma_escalada:
  assumes "0 \<le> f"
  shows "(of_int (\<Sum>proc\<leftarrow>procs. py_int (25 * f)
             + (if procedimento_requer_laudo s proc then py_int (20 * f) else 0)
             + py_int (10 * f)) :: rat)
         \<le> f * of_int (\<Sum>proc\<leftarrow>procs. 35 + (if procedimento_requer_laudo s proc then 20 else 0))"
proof (induction procs)
  case Nil
  show ?case by simp
next
  case (Cons p ps)
  have a: "of_int (py_int (25 * f)) \<le> 25 * f"
    using assms by (intro py_int_abaixo) simp
  have b: "of_int (py_int (20 * f)) \<le> 20 * f"
    using assms by (intro py_int_abaixo) simp
  have c: "of_int (py_int (10 * f)) \<le> 10 * f"
    using assms by (intro py_int_abaixo) simp
  show ?case
  proof (cases "procedimento_requer_laudo s p")
    case True
    then show ?thesis
      using Cons a b c by (simp add: algebra_simps)
  next
    case False
    then show ?thesis
      using Cons a c by (simp add: algebra_simps)
  qed
qed

lemma espacos_sem_piso_positivo: "espacos_sem_piso f \<Longrightarrow> 0 \<le> f"
proof (rule ccontr)
  assume h: "espacos_sem_piso f" and n: "\<not> 0 \<le> f"
  then have "25 * f < 0" by simp
  then have "py_int (25 * f) \<le> 0"
    by (simp add: py_int_def ceiling_le_iff)
  with h show False
    by (simp add: espacos_sem_piso_def)
qed

lemma espacos_sem_piso_tres_quartos:
  assumes "3 / 4 \<le> f"
  shows "espacos_sem_piso f"
proof -
  have p: "0 \<le> f" using assms by simp
  have "18 \<le> 25 * f" "15 \<le> 20 * f" "5 \<le> 10 * f"
    using assms by simp_all
  then show ?thesis
    using p by (simp add: espacos_sem_piso_def py_int_def le_floor_iff)
qed

text \<open>Without a floor on the spacings, the rows end above the footer margin.\<close>

lemma desenhar_cabe:
  assumes n: "0 < N" and N: "N = calcular_espaco_necessario s procs"
    and f: "f = D / of_int N" and sp: "espacos_sem_piso f"
    and t: "espaco_procedimento t = max 18 (py_int (25 * f))"
      "espaco_subitem t = max 15 (py_int (20 * f))"
      "espaco_extra t = max 5 (py_int (10 * f))"
  shows "y0 - desenhar_procedimentos s t procs y0 \<le> D"
proof -
  have p: "0 \<le> f" using sp by (rule espacos_sem_piso_positivo)
  have e: "espaco_procedimento t = py_int (25 * f)" "espaco_subitem t = py_int (20 * f)"
    "espaco_extra t = py_int (10 * f)"
    using sp t by (simp_all add: espacos_sem_piso_def)
  have "y0 - desenhar_procedimentos s t procs y0
          = of_int (\<Sum>proc\<leftarrow>procs. py_int (25 * f)
             + (if procedimento_requer_laudo s proc then py_int (20 * f) else 0)
             + py_int (10 * f))"
    by (simp add: desenhar_procedimentos_soma e cong: if_cong)
  also have "\<dots> \<le> f * of_int (\<Sum>proc\<leftarrow>procs. 35 + (if procedimento_requer_laudo s proc then 20 else 0))"
    using p by (rule soma_escalada)
  also have "\<dots> = f * of_int N"
    by (simp only: N calcular_espaco_necessario_soma)
  also have "\<dots> = D"
    using n by (simp add: f)
  finally show ?thesis .
qed

text \<open>
  Claim C1, as the code has it. For every page height, catalog and non-empty procedure
  list whose space at the nominal sizes exceeds the space available, the rendering computes
  its sizes without error, and each font size, checkbox size and row spacing is at least its
  floor (10, 9, 8 for the fonts, 18, 15, 5 for the spacings, 12 and 10 for the checkboxes).
  The rows fit the available space whenever none of the three scaled row spacings falls
  below its floor, which holds in particular when the space needed is at most four thirds of
  the space available. When a spacing is raised to its floor the code does nothing more,
  and the rows may run past the footer margin.
\<close>

theorem gerar_pdf_checklist_ajuste:
  assumes "procs \<noteq> []"
    and "espaco_disponivel height < of_int (calcular_espaco_necessario s procs)"
  shows "\<exists>t y. gerar_pdf_checklist height s procs = Inr (t, y)
           \<and> 10 \<le> fonte_numero t \<and> 9 \<le> fonte_procedimento t \<and> 8 \<le> fonte_subitem t
           \<and> 18 \<le> espaco_procedimento t \<and> 15 \<le> espaco_subitem t \<and> 5 \<le> espaco_extra t
           \<and> 12 \<le> tamanho_checkbox t \<and> 10 \<le> tamanho_subcheckbox t
           \<and> (espacos_sem_piso (fator_escala_de height s procs) \<longrightarrow>
                altura_consumida height y \<le> espaco_disponivel height)
           \<and> (3 * of_int (calcular_espaco_necessario s procs) \<le> 4 * espaco_disponivel height \<longrightarrow>
                altura_consumida height y \<le> espaco_disponivel height)"
proof -
  let ?N = "calcular_espaco_necessario s procs"
  let ?D = "espaco_disponivel height"
  let ?f = "?D / of_int ?N"
  define t where "t =
    \<lparr> fonte_numero = max 10 (py_int (14 * ?f)),
      fonte_procedimento = max 9 (py_int (12 * ?f)),
      fonte_subitem = max 8 (py_int (10 * ?f)),
      espaco_procedimento = max 18 (py_int (25 * ?f)),
      espaco_subitem = max 15 (py_int (20 * ?f)),
      espaco_extra = max 5 (py_int (10 * ?f)),
      tamanho_checkbox = max 12 (py_int (15 * ?f)),
      tamanho_subcheckbox = max 10 (py_int (12 * ?f)) \<rparr>"
  define y where "y = desenhar_procedimentos s t procs (height - 270)"
  have n: "0 < ?N"
    using assms(1) by (rule calcular_espaco_necessario_positivo)
  have c: "calcular_tamanhos ?D ?N = Inr t"
    using n assms(2) by (simp add: calcular_tamanhos_def t_def Let_def)
  have g: "gerar_pdf_checklist height s procs = Inr (t, y)"
    by (simp add: gerar_pdf_checklist_def Let_def c y_def)
  have pisos: "10 \<le> fonte_numero t" "9 \<le> fonte_procedimento t" "8 \<le> fonte_subitem t"
    "18 \<le> espaco_procedimento t" "15 \<le> espaco_subitem t" "5 \<le> espaco_extra t"
    "12 \<le> tamanho_checkbox t" "10 \<le> tamanho_subcheckbox t"
    by (simp_all add: t_def)
  have cabe: "altura_consumida height y \<le> ?D" if "espacos_sem_piso ?f"
    unfolding altura_consumida_def y_def
    by (rule desenhar_cabe [OF n refl refl that]) (simp_all add: t_def)
  have cabe': "altura_consumida height y \<le> ?D" if "3 * of_int ?N \<le> 4 * ?D"
  proof -
    have "3 / 4 \<le> ?f"
      using n that by (simp add: pos_le_divide_eq)
    then have "espacos_sem_piso ?f"
      by (rule espacos_sem_piso_tres_quartos)
    then show ?thesis by (rule cabe)
  qed
  show ?thesis
    using g pisos cabe cabe' by (auto simp: fator_escala_de_def)
qed

lemma exemplo_sem_laudo: "\<not> procedimento_requer_laudo exemplo_sistema p"
  by (simp add: procedimento_requer_laudo_def exemplo_sistema_def fold_inserir sem_laudo_def)

lemma exemplo_espaco_necessario:
  "calcular_espaco_necessario exemplo_sistema procs = 35 * int (length procs)"
  unfolding calcular_espaco_necessario_soma
  by (induction procs) (simp_all add: exemplo_sem_laudo)

lemma exemplo_desenhar:
  "desenhar_procedimentos exemplo_sistema t procs y
     = y - of_int (int (length procs) * (espaco_procedimento t + espaco_extra t))"
  unfolding desenhar_procedimentos_soma
  by (induction procs) (simp_all add: exemplo_sem_laudo algebra_simps)

lemma A4_disponivel: "espaco_disponivel A4_height = 62470 / 127"
  by (simp add: espaco_disponivel_def A4_height_def)

lemma tamanhos_quinze:
  "calcular_tamanhos (62470 / 127) 525 =
     Inr \<lparr> fonte_numero = 13, fonte_procedimento = 11, fonte_subitem = 9,
           espaco_procedimento = 23, espaco_subitem = 18, espaco_extra = 9,
           tamanho_checkbox = 14, tamanho_subcheckbox = 11 \<rparr>"
  by code_simp

lemma tamanhos_vinte:
  "calcular_tamanhos (62470 / 127) 700 =
     Inr \<lparr> fonte_numero = 10, fonte_procedimento = 9, fonte_subitem = 8,
           espaco_procedimento = 18, espaco_subitem = 15, espaco_extra = 7,
           tamanho_checkbox = 12, tamanho_subcheckbox = 10 \<rparr>"
  by code_simp

lemma sem_piso_quinze: "espacos_sem_piso ((62470 / 127) / 525)"
  by code_simp

lemma length_exemplo: "length exemplo_vinte_procedimentos = 20"
  by (simp add: exemplo_vinte_procedimentos_def)

text \<open>
  Fifteen procedures without report on an A4 page: 525 points are needed, about 491.9 are
  available; the rows take 15 times 32 = 480 points.
\<close>

theorem gerar_pdf_checklist_ajuste_witness:
  "exemplo_quinze_procedimentos \<noteq> []
   \<and> espaco_disponivel A4_height
       < of_int (calcular_espaco_necessario exemplo_sistema exemplo_quinze_procedimentos)
   \<and> espacos_sem_piso (fator_escala_de A4_height exemplo_sistema exemplo_quinze_procedimentos)
   \<and> gerar_pdf_checklist A4_height exemplo_sistema exemplo_quinze_procedimentos =
       Inr (\<lparr> fonte_numero = 13, fonte_procedimento = 11, fonte_subitem = 9,
              espaco_procedimento = 23, espaco_subitem = 18, espaco_extra = 9,
              tamanho_checkbox = 14, tamanho_subcheckbox = 11 \<rparr>, 11670 / 127)
   \<and> altura_consumida A4_height (11670 / 127) \<le> espaco_disponivel A4_height"
proof -
  let ?procs = "exemplo_quinze_procedimentos"
  have l: "length ?procs = 15"
    by (simp add: exemplo_quinze_procedimentos_def length_exemplo)
  have N: "calcular_espaco_necessario exemplo_sistema ?procs = 525"
    unfolding exemplo_espaco_necessario l by simp
  have h1: "?procs \<noteq> []"
    using l by auto
  have h2: "espaco_disponivel A4_height < of_int (calcular_espaco_necessario exemplo_sistema ?procs)"
    by (simp add: N A4_disponivel)
  have h3: "espacos_sem_piso (fator_escala_de A4_height exemplo_sistema ?procs)"
    using sem_piso_quinze by (simp add: fator_escala_de_def N A4_disponivel)
  have g: "gerar_pdf_checklist A4_height exemplo_sistema ?procs =
       Inr (\<lparr> fonte_numero = 13, fonte_procedimento = 11, fonte_subitem = 9,
              espaco_procedimento = 23, espaco_subitem = 18, espaco_extra = 9,
              tamanho_checkbox = 14, tamanho_subcheckbox = 11 \<rparr>, 11670 / 127)"
    unfolding gerar_pdf_checklist_def Let_def N A4_disponivel tamanhos_quinze
    by (simp add: exemplo_desenhar l
        A4_height_def)
  from gerar_pdf_checklist_ajuste [OF h1 h2] obtain t y
    where gy: "gerar_pdf_checklist A4_height exemplo_sistema ?procs = Inr (t, y)"
      and cabe: "espacos_sem_piso (fator_escala_de A4_height exemplo_sistema ?procs) \<longrightarrow>
             altura_consumida A4_height y \<le> espaco_disponivel A4_height"
    by blast
  have "Inr (t, y) = (Inr (\<lparr> fonte_numero = 13, fonte_procedimento = 11, fonte_subitem = 9,
              espaco_procedimento = 23, espaco_subitem = 18, espaco_extra = 9,
              tamanho_checkbox = 14, tamanho_subcheckbox = 11 \<rparr>, 11670 / 127) :: erro + tamanhos \<times> rat)"
    using gy [symmetric] g by (rule trans)
  then have y: "y = 11670 / 127"
    by (simp only: sum.inject prod.inject)
  have w: "altura_consumida A4_height (11670 / 127) \<le> espaco_disponivel A4_height"
    using cabe h3 unfolding y by (rule mp)
  show ?thesis
    by (intro conjI h1 h2 h3 g w)
qed

text \<open>
  Claim C1, as stated, fails. Twenty procedures without report on an A4 page need 700
  points; the scaled row spacing 17 is raised to its floor 18, the extra spacing is 7, and
  the rows take 20 times 25 = 500 points, more than the available space of about 491.9.
\<close>

theorem gerar_pdf_checklist_counterexample:
  "exemplo_vinte_procedimentos \<noteq> []
   \<and> espaco_disponivel A4_height
       < of_int (calcular_espaco_necessario exemplo_sistema exemplo_vinte_procedimentos)
   \<and> gerar_pdf_checklist A4_height exemplo_sistema exemplo_vinte_procedimentos =
       Inr (\<lparr> fonte_numero = 10, fonte_procedimento = 9, fonte_subitem = 8,
              espaco_procedimento = 18, espaco_subitem = 15, espaco_extra = 7,
              tamanho_checkbox = 12, tamanho_subcheckbox = 10 \<rparr>, 9130 / 127)
   \<and> altura_consumida A4_height (9130 / 127) = 500
   \<and> espaco_disponivel A4_height < 492
   \<and> \<not> altura_consumida A4_height (9130 / 127) \<le> espaco_disponivel A4_height"
proof -
  let ?procs = "exemplo_vinte_procedimentos"
  have N: "calcular_espaco_necessario exemplo_sistema ?procs = 700"
    by (simp add: exemplo_espaco_necessario length_exemplo)
  have c1: "?procs \<noteq> []"
    using length_exemplo by auto
  have c2: "espaco_disponivel A4_height < of_int (calcular_espaco_necessario exemplo_sistema ?procs)"
    by (simp add: N A4_disponivel)
  have c3: "gerar_pdf_checklist A4_height exemplo_sistema ?procs =
       Inr (\<lparr> fonte_numero = 10, fonte_procedimento = 9, fonte_subitem = 8,
              espaco_procedimento = 18, espaco_subitem = 15, espaco_extra = 7,
              tamanho_checkbox = 12, tamanho_subcheckbox = 10 \<rparr>, 9130 / 127)"
    unfolding gerar_pdf_checklist_def Let_def N A4_disponivel tamanhos_vinte
    by (simp add: exemplo_desenhar length_exemplo A4_height_def)
  have c4: "altura_consumida A4_height (9130 / 127) = 500"
    by (simp add: altura_consumida_def A4_height_def)
  have c5: "espaco_disponivel A4_height < 492"
    by (simp add: A4_disponivel)
  have c6: "\<not> altura_consumida A4_height (9130 / 127) \<le> espaco_disponivel A4_height"
    by (simp add: c4 A4_disponivel)
  show ?thesis
    by (intro conjI c1 c2 c3 c4 c5 c6)
qed

section \<open>Renaming a procedure\<close>

text \<open>What a renaming does when it is accepted, and when it is refused.\<close>

lemma editar_procedimento_db_recusa:
  "procedimentos_db s antigo = None \<or> novo = [] \<Longrightarrow>
     editar_procedimento_db antigo novo s = (False, s)"
  by (auto simp: editar_procedimento_db_def split: option.splits)

lemma py_index_primeira: "x \<in> set xs \<Longrightarrow> xs ! py_index xs x = x"
  by (induction xs) (auto simp: py_index_def)

lemma editar_procedimento_db_move:
  assumes "procedimentos_db s antigo = Some d" and "novo \<noteq> []"
  shows "fst (editar_procedimento_db antigo novo s)"
    and "procedimentos_db (snd (editar_procedimento_db antigo novo s)) novo = Some d"
    and "antigo \<noteq> novo \<Longrightarrow> procedimentos_db (snd (editar_procedimento_db antigo novo s)) antigo = None"
    and "x \<noteq> antigo \<Longrightarrow> x \<noteq> novo \<Longrightarrow>
           procedimentos_db (snd (editar_procedimento_db antigo novo s)) x = procedimentos_db s x"
    and "antigo \<in> set (procedimentos_obrigatorios s) \<Longrightarrow>
           procedimentos_obrigatorios (snd (editar_procedimento_db antigo novo s))
             = (procedimentos_obrigatorios s)[py_index (procedimentos_obrigatorios s) antigo := novo]"
  using assms
  by (auto simp: editar_procedimento_db_def Let_def)


end
